theory Spec2Isabelle
  imports Complex_Main "HOL-Library.Word"
begin

section \<open>Values of the Go program\<close>

text \<open>
  The services are built for 64-bit targets, where Go's \<^verbatim>\<open>int\<close> is a 64-bit two's
  complement integer: \<open>+\<close> and \<open>-\<close> wrap around silently, \<^verbatim>\<open>/\<close> truncates towards zero and
  panics on a zero divisor. A \<^verbatim>\<open>uuid.UUID\<close> is 16 bytes, read here as one 128-bit number
  (most significant byte first, which is also the order PostgreSQL sorts the type by); the nil
  UUID is \<open>0\<close>. A \<^verbatim>\<open>time.Time\<close> is a number of clock ticks.
\<close>

type_synonym go_int = "64 word"
type_synonym uuid = "128 word"
type_synonym go_time = nat

datatype panic = DivideByZero

definition go_div :: "go_int \<Rightarrow> go_int \<Rightarrow> panic + go_int" where
  "go_div a b =
     (if b = 0 then Inl DivideByZero
      else Inr (word_of_int (sgn (sint a) * sgn (sint b) * (\<bar>sint a\<bar> div \<bar>sint b\<bar>))))"

datatype error =
    ErrRecordNotFound
  | ErrMissingWhereClause
  | ErrUniqueViolation
  | ErrForeignKeyViolation
  | ErrMessage string

section \<open>utils: pagination (src/unnamed/part_000)\<close>

record Pagination =
  Page :: go_int
  Limit :: go_int
  Total :: go_int
  TotalPages :: go_int

text \<open>\<^verbatim>\<open>totalPages := (total + limit - 1) / limit\<close>, in Go's \<^verbatim>\<open>int\<close>.\<close>

definition NewPagination :: "go_int \<Rightarrow> go_int \<Rightarrow> go_int \<Rightarrow> panic + Pagination" where
  "NewPagination page limit totl =
     (case go_div (totl + limit - 1) limit of
        Inl e \<Rightarrow> Inl e
      | Inr totalPages \<Rightarrow>
          Inr \<lparr>Page = page, Limit = limit, Total = totl, TotalPages = totalPages\<rparr>)"

section \<open>models (src/internal/models/order.go, user.go, src/unnamed/part_003)\<close>

text \<open>
  The structs with the columns the repositories read or write. The \<^verbatim>\<open>float64\<close> money
  columns, the address columns and the \<^verbatim>\<open>CreatedAt\<close>/\<^verbatim>\<open>UpdatedAt\<close> stamps that gorm
  maintains by itself are left out; a table keeps its rows in the order they were inserted,
  so the row created last is the last row of the list.

  The association fields (\<^verbatim>\<open>Cart.Product\<close>, \<^verbatim>\<open>Order.Items\<close>, \<^verbatim>\<open>Order.Payment\<close>,
  \<^verbatim>\<open>OrderItem.Product\<close>) are not fields of the records: the model covers the calls in
  which they are empty (a zero struct, a nil pointer, a nil slice), where gorm saves nothing
  for them. What they do to the schema is kept. The services open the database with the
  default \<^verbatim>\<open>gorm.Config\<close>, so \<^verbatim>\<open>AutoMigrate\<close> creates a foreign key from each of them,
  and the tables these keys reference: \<^verbatim>\<open>carts.product_id\<close> references \<^verbatim>\<open>products.id\<close> and
  \<^verbatim>\<open>orders.payment_id\<close> references \<^verbatim>\<open>payments.id\<close>. (\<^verbatim>\<open>Payment\<close> and
  \<^verbatim>\<open>OrderStatusHistory\<close> declare no association, so their \<^verbatim>\<open>order_id\<close> is a plain column.
  \<^verbatim>\<open>order_items\<close> has two foreign keys as well, to \<^verbatim>\<open>orders.id\<close> and to \<^verbatim>\<open>products.id\<close>; no
  repository call modelled below writes that table.)
\<close>

record Cart =
  cart_ID :: uuid
  cart_UserID :: uuid
  cart_ProductID :: uuid
  cart_Quantity :: go_int

record Order =
  order_ID :: uuid
  order_UserID :: uuid
  order_OrderNumber :: string
  order_Status :: string
  order_PaymentID :: uuid
  order_PaymentStatus :: string
  order_DeletedAt :: "go_time option"

record OrderItem =
  item_ID :: uuid
  item_OrderID :: uuid
  item_ProductID :: uuid
  item_Quantity :: go_int

record OrderStatusHistory =
  hist_ID :: uuid
  hist_OrderID :: uuid
  hist_FromStatus :: string
  hist_ToStatus :: string
  hist_Notes :: string
  hist_CreatedBy :: uuid

text \<open>
  \<^verbatim>\<open>Payment.Amount\<close> is the one money column that is kept, for the amount check of a
  payment callback. Amounts are only ever compared there, and are read as a whole number of
  the smallest currency unit.
\<close>

record Payment =
  pay_ID :: uuid
  pay_OrderID :: uuid
  pay_UserID :: uuid
  pay_Amount :: int
  pay_Method :: string
  pay_Status :: string
  pay_PaidAt :: "go_time option"
  pay_TransactionID :: string

record Product =
  prod_ID :: uuid
  prod_Stock :: go_int
  prod_IsActive :: bool

text \<open>
  The order service's database: the five tables that \<^verbatim>\<open>main\<close> migrates, and the
  \<^verbatim>\<open>products\<close> table that comes with the foreign key of \<^verbatim>\<open>Cart.Product\<close>.
\<close>

record DB =
  carts :: "Cart list"
  orders :: "Order list"
  order_items :: "OrderItem list"
  order_status_histories :: "OrderStatusHistory list"
  payments :: "Payment list"
  products :: "Product list"

section \<open>The gorm calls the repositories make\<close>

text \<open>
  Each definition is one gorm call on one table, given as the list of its rows. \<open>pk\<close> reads
  a row's primary key, \<open>set_pk\<close> writes it, \<open>clash x r\<close> says that row \<open>x\<close> and the new row
  \<open>r\<close> collide on a unique index other than the primary key. For a table with foreign
  keys, \<open>refs_ok r\<close> says that the rows which \<open>r\<close> references exist, and \<open>same_refs x r\<close>
  that \<open>x\<close> and \<open>r\<close> reference the same rows.

  \<^verbatim>\<open>Where(cond).First(&dst)\<close> selects the matching rows ordered by primary key and keeps the
  first; with no match it is \<^verbatim>\<open>gorm.ErrRecordNotFound\<close>.
\<close>

definition gorm_First :: "('r \<Rightarrow> uuid) \<Rightarrow> ('r \<Rightarrow> bool) \<Rightarrow> 'r list \<Rightarrow> error + 'r" where
  "gorm_First pk cond rows =
     (case filter cond rows of
        [] \<Rightarrow> Inl ErrRecordNotFound
      | r # rs \<Rightarrow> Inr (arg_min_list pk (r # rs)))"

text \<open>
  The \<^verbatim>\<open>INSERT\<close> itself: the database refuses a row whose primary key, or whose unique
  index, is already taken (also by a soft-deleted row), and the statement changes nothing.
\<close>

definition insert_row ::
  "('r \<Rightarrow> uuid) \<Rightarrow> ('r \<Rightarrow> 'r \<Rightarrow> bool) \<Rightarrow> 'r \<Rightarrow> 'r list \<Rightarrow> error + 'r list" where
  "insert_row pk clash r rows =
     (if list_ex (\<lambda>x. pk x = pk r \<or> clash x r) rows then Inl ErrUniqueViolation
      else Inr (rows @ [r]))"

text \<open>
  \<^verbatim>\<open>Create(&r)\<close>. Every primary key is tagged \<^verbatim>\<open>default:gen_random_uuid()\<close>: gorm leaves a
  zero-valued key out of the \<^verbatim>\<open>INSERT\<close>, the database fills it in, and gorm writes the
  generated key back into the struct. \<open>gen\<close> is the value \<^verbatim>\<open>gen_random_uuid()\<close> yields for
  this statement. PostgreSQL checks the unique indexes when it inserts the row and the
  foreign keys at the end of the statement: a row that passes the first and references a
  missing row is refused, and the statement changes nothing. The result is the struct as
  gorm leaves it, and the table.
\<close>

definition gorm_Create ::
  "('r \<Rightarrow> uuid) \<Rightarrow> (uuid \<Rightarrow> 'r \<Rightarrow> 'r) \<Rightarrow> ('r \<Rightarrow> 'r \<Rightarrow> bool) \<Rightarrow> ('r \<Rightarrow> bool) \<Rightarrow> uuid \<Rightarrow> 'r
     \<Rightarrow> 'r list \<Rightarrow> error + 'r \<times> 'r list" where
  "gorm_Create pk set_pk clash refs_ok gen r rows =
     (let r' = (if pk r = 0 then set_pk gen r else r) in
      case insert_row pk clash r' rows of
        Inl e \<Rightarrow> Inl e
      | Inr rows' \<Rightarrow> if refs_ok r' then Inr (r', rows') else Inl ErrForeignKeyViolation)"

text \<open>
  \<^verbatim>\<open>Save(&r)\<close>: with a zero primary key it is \<^verbatim>\<open>Create\<close>; otherwise it updates all columns of
  the row with that key and, when no row was updated, inserts the row
  (\<^verbatim>\<open>ON CONFLICT DO UPDATE\<close>). On an \<^verbatim>\<open>UPDATE\<close>, PostgreSQL checks a foreign key again only
  for a row whose referencing column changes.
\<close>

definition gorm_Save ::
  "('r \<Rightarrow> uuid) \<Rightarrow> (uuid \<Rightarrow> 'r \<Rightarrow> 'r) \<Rightarrow> ('r \<Rightarrow> 'r \<Rightarrow> bool) \<Rightarrow> ('r \<Rightarrow> bool) \<Rightarrow> ('r \<Rightarrow> 'r \<Rightarrow> bool)
     \<Rightarrow> uuid \<Rightarrow> 'r \<Rightarrow> 'r list \<Rightarrow> error + 'r \<times> 'r list" where
  "gorm_Save pk set_pk clash refs_ok same_refs gen r rows =
     (if pk r = 0 then gorm_Create pk set_pk clash refs_ok gen r rows
      else if list_ex (\<lambda>x. pk x = pk r) rows then
        (if list_ex (\<lambda>x. pk x \<noteq> pk r \<and> clash x r) rows then Inl ErrUniqueViolation
         else if \<not> refs_ok r \<and> list_ex (\<lambda>x. pk x = pk r \<and> \<not> same_refs x r) rows
         then Inl ErrForeignKeyViolation
         else Inr (r, map (\<lambda>x. if pk x = pk r then r else x) rows))
      else gorm_Create pk set_pk clash refs_ok gen r rows)"

text \<open>
  \<^verbatim>\<open>Model(&T{}).Where(cond).Update(...)\<close> and \<^verbatim>\<open>.Updates(...)\<close>: every matching row is
  changed by \<open>f\<close>. gorm reports no error when no row matches (only \<^verbatim>\<open>RowsAffected\<close> is 0,
  which the repositories never read).
\<close>

definition gorm_Update_where :: "('r \<Rightarrow> bool) \<Rightarrow> ('r \<Rightarrow> 'r) \<Rightarrow> 'r list \<Rightarrow> 'r list" where
  "gorm_Update_where cond f rows = map (\<lambda>r. if cond r then f r else r) rows"

text \<open>
  \<^verbatim>\<open>Model(&m).Update(column, value)\<close> on a loaded struct \<open>m\<close>: the condition is \<open>m\<close>'s primary
  key (and, for a soft-deleting model, \<^verbatim>\<open>deleted_at IS NULL\<close>, here \<open>alive\<close>); a zero key
  leaves no condition and gorm refuses the statement with \<^verbatim>\<open>ErrMissingWhereClause\<close>.
  gorm also assigns the new value to the field of \<open>m\<close> itself (its update callback sets
  every updated column on the addressable model value), so after the call the struct holds
  the new value: the result is the struct as gorm leaves it, and the table.
\<close>

definition gorm_Model_Update ::
  "('r \<Rightarrow> uuid) \<Rightarrow> ('r \<Rightarrow> bool) \<Rightarrow> ('r \<Rightarrow> 'r) \<Rightarrow> 'r \<Rightarrow> 'r list \<Rightarrow> error + 'r \<times> 'r list" where
  "gorm_Model_Update pk alive f m rows =
     (if pk m = 0 then Inl ErrMissingWhereClause
      else Inr (f m, map (\<lambda>r. if pk r = pk m \<and> alive r then f r else r) rows))"

text \<open>
  \<^verbatim>\<open>db.Transaction(fc)\<close> commits what \<open>fc\<close> wrote when \<open>fc\<close> returns nil and rolls
  everything back when it returns an error. A single statement outside a transaction is its
  own transaction. The result is the error returned (if any) and the database afterwards.
\<close>

definition Transaction :: "('s \<Rightarrow> 'e + 's) \<Rightarrow> 's \<Rightarrow> 'e option \<times> 's" where
  "Transaction fc db = (case fc db of Inl e \<Rightarrow> (Some e, db) | Inr db' \<Rightarrow> (None, db'))"

section \<open>CartRepository (src/internal/repository/order_repository.go)\<close>

text \<open>
  The foreign key of \<^verbatim>\<open>carts\<close>: the product of a cart line is a row of \<^verbatim>\<open>products\<close> (a
  soft-deleted product is still a row).
\<close>

definition cart_refs_ok :: "DB \<Rightarrow> Cart \<Rightarrow> bool" where
  "cart_refs_ok db c \<longleftrightarrow> cart_ProductID c \<in> set (map prod_ID (products db))"

definition AddToCart :: "uuid \<Rightarrow> Cart \<Rightarrow> DB \<Rightarrow> error option \<times> DB" where
  "AddToCart gen cart db =
     (case gorm_First cart_ID
             (\<lambda>c. cart_UserID c = cart_UserID cart \<and> cart_ProductID c = cart_ProductID cart)
             (carts db) of
        Inr existingCart \<Rightarrow>
          (case gorm_Save cart_ID (\<lambda>i c. c\<lparr>cart_ID := i\<rparr>) (\<lambda>x c. False) (cart_refs_ok db)
                  (\<lambda>x c. cart_ProductID x = cart_ProductID c) gen
                  (existingCart\<lparr>cart_Quantity := cart_Quantity existingCart + cart_Quantity cart\<rparr>)
                  (carts db) of
             Inl e \<Rightarrow> (Some e, db)
           | Inr (saved, rows) \<Rightarrow> (None, db\<lparr>carts := rows\<rparr>))
      | Inl err \<Rightarrow>
          if err \<noteq> ErrRecordNotFound then (Some err, db)
          else
            (case gorm_Create cart_ID (\<lambda>i c. c\<lparr>cart_ID := i\<rparr>) (\<lambda>x c. False) (cart_refs_ok db)
                    gen cart (carts db) of
               Inl e \<Rightarrow> (Some e, db)
             | Inr (created, rows) \<Rightarrow> (None, db\<lparr>carts := rows\<rparr>)))"

definition GetCart :: "uuid \<Rightarrow> DB \<Rightarrow> Cart list" where
  "GetCart userID db = filter (\<lambda>c. cart_UserID c = userID) (carts db)"

definition UpdateCartItem :: "uuid \<Rightarrow> uuid \<Rightarrow> go_int \<Rightarrow> DB \<Rightarrow> error option \<times> DB" where
  "UpdateCartItem cartID userID quantity db =
     (None,
      db\<lparr>carts :=
           gorm_Update_where (\<lambda>c. cart_ID c = cartID \<and> cart_UserID c = userID)
             (\<lambda>c. c\<lparr>cart_Quantity := quantity\<rparr>) (carts db)\<rparr>)"

section \<open>OrderRepository\<close>

text \<open>
  \<^verbatim>\<open>Status\<close> and \<^verbatim>\<open>PaymentStatus\<close> are tagged \<^verbatim>\<open>default:pending\<close>: on \<^verbatim>\<open>Create\<close>, gorm
  stores the default for an empty field and sets it on the struct.
\<close>

definition order_defaults :: "Order \<Rightarrow> Order" where
  "order_defaults order =
     order\<lparr>order_Status := (if order_Status order = [] then ''pending'' else order_Status order),
           order_PaymentStatus :=
             (if order_PaymentStatus order = [] then ''pending'' else order_PaymentStatus order)\<rparr>"

text \<open>
  The foreign key of \<^verbatim>\<open>orders\<close>: \<^verbatim>\<open>PaymentID\<close> is a plain \<^verbatim>\<open>uuid.UUID\<close>, never \<^verbatim>\<open>NULL\<close>,
  so the payment it names has to be a row of \<^verbatim>\<open>payments\<close>.
\<close>

definition order_refs_ok :: "DB \<Rightarrow> Order \<Rightarrow> bool" where
  "order_refs_ok db r \<longleftrightarrow> order_PaymentID r \<in> set (map pay_ID (payments db))"

text \<open>
  \<open>newID\<close> is what \<^verbatim>\<open>uuid.New()\<close> returns: a version-4 UUID, never the nil UUID, so the
  history row is inserted under exactly this key. \<open>gen\<close> is the key the database generates
  for the order when \<^verbatim>\<open>order.ID\<close> is zero.
\<close>

definition CreateOrder :: "uuid \<Rightarrow> uuid \<Rightarrow> Order \<Rightarrow> DB \<Rightarrow> error option \<times> DB" where
  "CreateOrder newID gen order =
     Transaction (\<lambda>tx.
       case gorm_Create order_ID (\<lambda>i r. r\<lparr>order_ID := i\<rparr>)
              (\<lambda>x r. order_OrderNumber x = order_OrderNumber r) (order_refs_ok tx) gen
              (order_defaults order) (orders tx) of
         Inl err \<Rightarrow> Inl err
       | Inr (order', rows) \<Rightarrow>
           (let history =
                  \<lparr>hist_ID = newID, hist_OrderID = order_ID order', hist_FromStatus = [],
                   hist_ToStatus = order_Status order', hist_Notes = ''Order created'',
                   hist_CreatedBy = order_UserID order'\<rparr>
            in case insert_row hist_ID (\<lambda>x h. False) history (order_status_histories tx) of
                 Inl err \<Rightarrow> Inl err
               | Inr hs \<Rightarrow> Inr (tx\<lparr>orders := rows, order_status_histories := hs\<rparr>)))"

text \<open>
  The body reads \<^verbatim>\<open>order.Status\<close> for \<^verbatim>\<open>FromStatus\<close> after
  \<^verbatim>\<open>tx.Model(&order).Update("status", status)\<close> has run on that same struct.
\<close>

definition UpdateOrderStatus ::
  "uuid \<Rightarrow> uuid \<Rightarrow> string \<Rightarrow> string \<Rightarrow> uuid \<Rightarrow> DB \<Rightarrow> error option \<times> DB" where
  "UpdateOrderStatus newID orderID status notes updatedBy =
     Transaction (\<lambda>tx.
       case gorm_First order_ID (\<lambda>r. order_ID r = orderID \<and> order_DeletedAt r = None)
              (orders tx) of
         Inl err \<Rightarrow> Inl err
       | Inr order \<Rightarrow>
           (case gorm_Model_Update order_ID (\<lambda>r. order_DeletedAt r = None)
                   (\<lambda>r. r\<lparr>order_Status := status\<rparr>) order (orders tx) of
              Inl err \<Rightarrow> Inl err
            | Inr (order', rows) \<Rightarrow>
                (let history =
                       \<lparr>hist_ID = newID, hist_OrderID = orderID,
                        hist_FromStatus = order_Status order', hist_ToStatus = status,
                        hist_Notes = notes, hist_CreatedBy = updatedBy\<rparr>
                 in case insert_row hist_ID (\<lambda>x h. False) history (order_status_histories tx) of
                      Inl err \<Rightarrow> Inl err
                    | Inr hs \<Rightarrow> Inr (tx\<lparr>orders := rows, order_status_histories := hs\<rparr>))))"

definition GetOrderStatusHistories :: "uuid \<Rightarrow> DB \<Rightarrow> OrderStatusHistory list" where
  "GetOrderStatusHistories orderID db =
     rev (filter (\<lambda>h. hist_OrderID h = orderID) (order_status_histories db))"

section \<open>User service (src/internal/service/user_service.go, src/unnamed/part_002)\<close>

record User =
  user_ID :: uuid
  user_Name :: string
  user_Email :: string
  user_Password :: string
  user_Phone :: string
  user_Address :: string
  user_Role :: string
  user_IsActive :: bool
  user_DeletedAt :: "go_time option"

record RegisterRequest =
  reg_Name :: string
  reg_Email :: string
  reg_Password :: string
  reg_Phone :: string
  reg_Address :: string

record LoginRequest =
  login_Email :: string
  login_Password :: string

record AuthResponse =
  resp_User :: User
  resp_AccessToken :: string
  resp_RefreshToken :: string

text \<open>
  The user service's state: the \<^verbatim>\<open>users\<close> table and the Redis keys (expiry is not
  modelled).
\<close>

record UserState =
  users :: "User list"
  redis :: "string \<rightharpoonup> string"

text \<open>
  What the service takes from its libraries and its surroundings, as parameters: bcrypt,
  the JWT library, \<^verbatim>\<open>uuid.Parse\<close> and \<^verbatim>\<open>UUID.String\<close>, and whether a Redis command on a
  key fails. A value of a JSON object or of a claims map is a string or something else.
\<close>

datatype jvalue = JString string | JNumber int | JOther

datatype parsed_token =
    ParseError
  | Parsed (tok_Valid: bool) (tok_Claims: "(string \<rightharpoonup> jvalue) option")

record Lib =
  bcrypt_GenerateFromPassword :: "string \<Rightarrow> error + string"
  bcrypt_CompareHashAndPassword :: "string \<Rightarrow> string \<Rightarrow> bool"
  jwt_SignedString :: "(string \<times> jvalue) list \<Rightarrow> error + string"
  jwt_ParseWithClaims :: "string \<Rightarrow> parsed_token"
  uuid_Parse :: "string \<Rightarrow> uuid option"
  uuid_String :: "uuid \<Rightarrow> string"
  redis_fault :: "string \<Rightarrow> error option"

subsection \<open>UserRepository\<close>

definition GetByEmail :: "string \<Rightarrow> User list \<Rightarrow> error + User option" where
  "GetByEmail email rows =
     (case gorm_First user_ID (\<lambda>u. user_Email u = email \<and> user_DeletedAt u = None) rows of
        Inl err \<Rightarrow> if err = ErrRecordNotFound then Inr None else Inl err
      | Inr user \<Rightarrow> Inr (Some user))"

definition GetByID :: "uuid \<Rightarrow> User list \<Rightarrow> error + User option" where
  "GetByID userID rows =
     (case gorm_First user_ID (\<lambda>u. user_ID u = userID \<and> user_DeletedAt u = None) rows of
        Inl err \<Rightarrow> if err = ErrRecordNotFound then Inr None else Inl err
      | Inr user \<Rightarrow> Inr (Some user))"

text \<open>
  \<^verbatim>\<open>Email\<close> has a unique index; \<^verbatim>\<open>Role\<close> is tagged \<^verbatim>\<open>default:user\<close> and \<^verbatim>\<open>IsActive\<close>
  \<^verbatim>\<open>default:true\<close>, which gorm applies to a zero-valued field on \<^verbatim>\<open>Create\<close>. The table
  has no foreign key.
\<close>

definition user_defaults :: "User \<Rightarrow> User" where
  "user_defaults user =
     user\<lparr>user_Role := (if user_Role user = [] then ''user'' else user_Role user),
          user_IsActive := True\<rparr>"

definition user_Create :: "uuid \<Rightarrow> User \<Rightarrow> User list \<Rightarrow> error + User \<times> User list" where
  "user_Create gen user rows =
     gorm_Create user_ID (\<lambda>i u. u\<lparr>user_ID := i\<rparr>) (\<lambda>x u. user_Email x = user_Email u)
       (\<lambda>u. True) gen (user_defaults user) rows"

definition user_Update :: "uuid \<Rightarrow> User \<Rightarrow> User list \<Rightarrow> error + User \<times> User list" where
  "user_Update gen user rows =
     gorm_Save user_ID (\<lambda>i u. u\<lparr>user_ID := i\<rparr>) (\<lambda>x u. user_Email x = user_Email u)
       (\<lambda>u. True) (\<lambda>x u. True) gen user rows"

text \<open>
  \<^verbatim>\<open>GetAll\<close>: the count of the live rows, then \<^verbatim>\<open>Offset(offset).Limit(limit).Find\<close>. gorm
  writes an \<^verbatim>\<open>OFFSET\<close> only when it is positive and a \<^verbatim>\<open>LIMIT\<close> only when it is not
  negative. The query has no \<^verbatim>\<open>ORDER BY\<close>; the rows come in table order here.
\<close>

definition GetAll :: "go_int \<Rightarrow> go_int \<Rightarrow> User list \<Rightarrow> error + User list \<times> 64 word" where
  "GetAll page limit rows =
     (let offset = (page - 1) * limit;
          live = filter (\<lambda>u. user_DeletedAt u = None) rows;
          totl = (of_nat (length live) :: 64 word);
          skipped = (if 0 < sint offset then drop (nat (sint offset)) live else live);
          found = (if 0 \<le> sint limit then take (nat (sint limit)) skipped else skipped)
      in Inr (found, totl))"

subsection \<open>UserService\<close>

text \<open>\<open>now\<close> is \<^verbatim>\<open>time.Now().Unix()\<close>.\<close>

definition generateTokens :: "Lib \<Rightarrow> int \<Rightarrow> User \<Rightarrow> error + string \<times> string" where
  "generateTokens lib now user =
     (let accessClaims =
            [(''user_id'', JString (uuid_String lib (user_ID user))),
             (''email'', JString (user_Email user)),
             (''role'', JString (user_Role user)),
             (''exp'', JNumber (now + 24 * 3600)),
             (''iat'', JNumber now)]
      in case jwt_SignedString lib accessClaims of
           Inl err \<Rightarrow> Inl err
         | Inr accessTokenString \<Rightarrow>
             (let refreshClaims =
                    [(''user_id'', JString (uuid_String lib (user_ID user))),
                     (''exp'', JNumber (now + 24 * 7 * 3600)),
                     (''iat'', JNumber now)]
              in case jwt_SignedString lib refreshClaims of
                   Inl err \<Rightarrow> Inl err
                 | Inr refreshTokenString \<Rightarrow> Inr (accessTokenString, refreshTokenString)))"

definition storeRefreshToken :: "Lib \<Rightarrow> uuid \<Rightarrow> string \<Rightarrow> UserState \<Rightarrow> error option \<times> UserState" where
  "storeRefreshToken lib userID refreshToken st =
     (let key = ''refresh_token:'' @ refreshToken in
      case redis_fault lib key of
        Some err \<Rightarrow> (Some err, st)
      | None \<Rightarrow> (None, st\<lparr>redis := (redis st)(key \<mapsto> uuid_String lib userID)\<rparr>))"

text \<open>
  \<open>newID\<close> is what \<^verbatim>\<open>uuid.New()\<close> returns, \<open>gen\<close> the key the database would generate.
  \<^verbatim>\<open>publishUserRegisteredEvent\<close> builds an event and publishes nothing (the call is
  commented out).
\<close>

definition Register ::
  "Lib \<Rightarrow> int \<Rightarrow> uuid \<Rightarrow> uuid \<Rightarrow> RegisterRequest \<Rightarrow> UserState
     \<Rightarrow> (error + AuthResponse) \<times> UserState" where
  "Register lib now newID gen req st =
     (case GetByEmail (reg_Email req) (users st) of
        Inl err \<Rightarrow> (Inl err, st)
      | Inr (Some existingUser) \<Rightarrow> (Inl (ErrMessage ''user already exists''), st)
      | Inr None \<Rightarrow>
          (case bcrypt_GenerateFromPassword lib (reg_Password req) of
             Inl err \<Rightarrow> (Inl err, st)
           | Inr hashedPassword \<Rightarrow>
               (let user = \<lparr>user_ID = newID, user_Name = reg_Name req, user_Email = reg_Email req,
                             user_Password = hashedPassword, user_Phone = reg_Phone req,
                             user_Address = reg_Address req, user_Role = ''user'',
                             user_IsActive = True, user_DeletedAt = None\<rparr>
                in case user_Create gen user (users st) of
                     Inl err \<Rightarrow> (Inl err, st)
                   | Inr (created, rows) \<Rightarrow>
                       (let st1 = st\<lparr>users := rows\<rparr> in
                        case generateTokens lib now created of
                          Inl err \<Rightarrow> (Inl err, st1)
                        | Inr (accessToken, refreshToken) \<Rightarrow>
                            (case storeRefreshToken lib (user_ID created) refreshToken st1 of
                               (Some err, st2) \<Rightarrow> (Inl err, st2)
                             | (None, st2) \<Rightarrow>
                                 (Inr \<lparr>resp_User = created\<lparr>user_Password := []\<rparr>,
                                       resp_AccessToken = accessToken,
                                       resp_RefreshToken = refreshToken\<rparr>, st2))))))"

definition Login ::
  "Lib \<Rightarrow> int \<Rightarrow> LoginRequest \<Rightarrow> UserState \<Rightarrow> (error + AuthResponse) \<times> UserState" where
  "Login lib now req st =
     (case GetByEmail (login_Email req) (users st) of
        Inl err \<Rightarrow> (Inl err, st)
      | Inr None \<Rightarrow> (Inl (ErrMessage ''user not found''), st)
      | Inr (Some user) \<Rightarrow>
          if \<not> bcrypt_CompareHashAndPassword lib (user_Password user) (login_Password req)
          then (Inl (ErrMessage ''invalid credentials''), st)
          else if \<not> user_IsActive user
          then (Inl (ErrMessage ''user account is deactivated''), st)
          else
            (case generateTokens lib now user of
               Inl err \<Rightarrow> (Inl err, st)
             | Inr (accessToken, refreshToken) \<Rightarrow>
                 (case storeRefreshToken lib (user_ID user) refreshToken st of
                    (Some err, st1) \<Rightarrow> (Inl err, st1)
                  | (None, st1) \<Rightarrow>
                      (Inr \<lparr>resp_User = user\<lparr>user_Password := []\<rparr>,
                            resp_AccessToken = accessToken,
                            resp_RefreshToken = refreshToken\<rparr>, st1))))"

definition RefreshToken ::
  "Lib \<Rightarrow> int \<Rightarrow> string \<Rightarrow> UserState \<Rightarrow> (error + AuthResponse) \<times> UserState" where
  "RefreshToken lib now refreshToken st =
     (case jwt_ParseWithClaims lib refreshToken of
        ParseError \<Rightarrow> (Inl (ErrMessage ''invalid refresh token''), st)
      | Parsed valid claims \<Rightarrow>
          if \<not> valid then (Inl (ErrMessage ''invalid refresh token''), st)
          else
            (case claims of
               None \<Rightarrow> (Inl (ErrMessage ''invalid token claims''), st)
             | Some cs \<Rightarrow>
                 (case cs ''user_id'' of
                    Some (JString userIDStr) \<Rightarrow>
                      (case uuid_Parse lib userIDStr of
                         None \<Rightarrow> (Inl (ErrMessage ''invalid user ID format''), st)
                       | Some userID \<Rightarrow>
                           (let key = ''refresh_token:'' @ refreshToken in
                            case redis_fault lib key of
                              Some err \<Rightarrow> (Inl err, st)
                            | None \<Rightarrow>
                                if redis st key = None
                                then (Inl (ErrMessage ''refresh token not found''), st)
                                else
                                  (case GetByID userID (users st) of
                                     Inl err \<Rightarrow> (Inl err, st)
                                   | Inr None \<Rightarrow> (Inl (ErrMessage ''user not found''), st)
                                   | Inr (Some user) \<Rightarrow>
                                       (case generateTokens lib now user of
                                          Inl err \<Rightarrow> (Inl err, st)
                                        | Inr (accessToken, newRefreshToken) \<Rightarrow>
                                            (let st1 = st\<lparr>redis := (redis st)(key := None)\<rparr> in
                                             case storeRefreshToken lib (user_ID user) newRefreshToken st1 of
                                               (Some err, st2) \<Rightarrow> (Inl err, st2)
                                             | (None, st2) \<Rightarrow>
                                                 (Inr \<lparr>resp_User = user\<lparr>user_Password := []\<rparr>,
                                                       resp_AccessToken = accessToken,
                                                       resp_RefreshToken = newRefreshToken\<rparr>,
                                                  st2))))))
                  | _ \<Rightarrow> (Inl (ErrMessage ''invalid user ID in token''), st))))"

definition GetProfile :: "uuid \<Rightarrow> UserState \<Rightarrow> error + User" where
  "GetProfile userID st =
     (case GetByID userID (users st) of
        Inl err \<Rightarrow> Inl err
      | Inr None \<Rightarrow> Inl (ErrMessage ''user not found'')
      | Inr (Some user) \<Rightarrow> Inr (user\<lparr>user_Password := []\<rparr>))"

definition UpdateProfile ::
  "uuid \<Rightarrow> uuid \<Rightarrow> (string \<rightharpoonup> jvalue) \<Rightarrow> UserState \<Rightarrow> (error + User) \<times> UserState" where
  "UpdateProfile gen userID updates st =
     (case GetByID userID (users st) of
        Inl err \<Rightarrow> (Inl err, st)
      | Inr None \<Rightarrow> (Inl (ErrMessage ''user not found''), st)
      | Inr (Some user) \<Rightarrow>
          (let user1 = (case updates ''name'' of Some (JString name) \<Rightarrow> user\<lparr>user_Name := name\<rparr>
                        | _ \<Rightarrow> user);
               user2 = (case updates ''phone'' of Some (JString phone) \<Rightarrow> user1\<lparr>user_Phone := phone\<rparr>
                        | _ \<Rightarrow> user1);
               user3 = (case updates ''address'' of
                          Some (JString address) \<Rightarrow> user2\<lparr>user_Address := address\<rparr>
                        | _ \<Rightarrow> user2)
           in case user_Update gen user3 (users st) of
                Inl err \<Rightarrow> (Inl err, st)
              | Inr (saved, rows) \<Rightarrow> (Inr (saved\<lparr>user_Password := []\<rparr>), st\<lparr>users := rows\<rparr>)))"

definition GetAllUsers :: "go_int \<Rightarrow> go_int \<Rightarrow> UserState \<Rightarrow> error + User list \<times> 64 word" where
  "GetAllUsers page limit st =
     (case GetAll page limit (users st) of
        Inl err \<Rightarrow> Inl err
      | Inr (found, totl) \<Rightarrow> Inr (map (\<lambda>u. u\<lparr>user_Password := []\<rparr>) found, totl))"

definition GetUserByID :: "uuid \<Rightarrow> UserState \<Rightarrow> error + User" where
  "GetUserByID userID st =
     (case GetByID userID (users st) of
        Inl err \<Rightarrow> Inl err
      | Inr None \<Rightarrow> Inl (ErrMessage ''user not found'')
      | Inr (Some user) \<Rightarrow> Inr (user\<lparr>user_Password := []\<rparr>))"

section \<open>Checkout and payment callbacks, after the specification\<close>

text \<open>
  \<^verbatim>\<open>main\<close> builds \<^verbatim>\<open>service.NewOrderService\<close> and \<^verbatim>\<open>service.NewPaymentService\<close> and routes
  \<^verbatim>\<open>POST /checkout\<close> to \<^verbatim>\<open>orderHandler.Checkout\<close> and \<^verbatim>\<open>POST /payments/:id/callback\<close> to
  \<^verbatim>\<open>paymentHandler.PaymentCallback\<close>, but neither these services nor their handlers are
  among the sources. The two operations are modelled in this section from the specification
  (sections 3, 4.2, 4.3, 4.4 and 6), over the tables above. The rows are written as the
  specification's data model has them: keys are unique, \<open>orderNumber\<close> is unique, an order
  has one payment, and a reference is a plain value that nothing checks.
\<close>














section \<open>Views and sample data used by the statements\<close>

text \<open>The cart lines of one user for one product.\<close>

definition cart_lines :: "uuid \<Rightarrow> uuid \<Rightarrow> DB \<Rightarrow> Cart list" where
  "cart_lines userID productID db =
     filter (\<lambda>c. cart_UserID c = userID \<and> cart_ProductID c = productID) (carts db)"

text \<open>
  Two products: five of product 3 and one of product 4 are in stock.
\<close>

definition ex_products :: "Product list" where
  "ex_products =
     [\<lparr>prod_ID = 3, prod_Stock = 5, prod_IsActive = True\<rparr>,
      \<lparr>prod_ID = 4, prod_Stock = 1, prod_IsActive = True\<rparr>]"

text \<open>A database with one cart line: user 1 holds 2 of product 3 in line 7.\<close>

definition ex_cart_db :: DB where
  "ex_cart_db =
     \<lparr>carts = [\<lparr>cart_ID = 7, cart_UserID = 1, cart_ProductID = 3, cart_Quantity = 2\<rparr>],
      orders = [], order_items = [], order_status_histories = [], payments = [],
      products = ex_products\<rparr>"

text \<open>
  The history rows of one order, oldest first, and the order rows under one key. The row
  created most recently is the last one of \<open>order_histories\<close>.
\<close>

definition order_histories :: "uuid \<Rightarrow> DB \<Rightarrow> OrderStatusHistory list" where
  "order_histories orderID db =
     filter (\<lambda>h. hist_OrderID h = orderID) (order_status_histories db)"

definition order_rows :: "uuid \<Rightarrow> DB \<Rightarrow> Order list" where
  "order_rows orderID db = filter (\<lambda>r. order_ID r = orderID) (orders db)"

text \<open>
  A sequence of status transitions of one order, each given by the arguments of its
  \<open>UpdateOrderStatus\<close> call (with the id \<^verbatim>\<open>uuid.New()\<close> returns in it); the result is
  \<open>None\<close> as soon as one of the calls fails.
\<close>

fun run_transitions ::
  "uuid \<Rightarrow> (uuid \<times> string \<times> string \<times> uuid) list \<Rightarrow> DB \<Rightarrow> DB option" where
  "run_transitions orderID [] db = Some db"
| "run_transitions orderID ((newID, status, notes, updatedBy) # ts) db =
     (case UpdateOrderStatus newID orderID status notes updatedBy db of
        (None, db') \<Rightarrow> run_transitions orderID ts db'
      | (Some e, db') \<Rightarrow> None)"

text \<open>
  The transition table of the specification. Nothing in the source holds such a table; it is
  here to say which transitions the specification calls illegal.
\<close>

definition spec_allowed_transitions :: "(string \<times> string) list" where
  "spec_allowed_transitions =
     [(''pending'', ''confirmed''), (''pending'', ''cancelled''), (''confirmed'', ''shipped''),
      (''confirmed'', ''cancelled''), (''shipped'', ''delivered'')]"

text \<open>
  A database with order 1 of user 5 in status \<open>st\<close>, its creation record, one order item,
  its payment 9 (pending, known to the gateway as \<open>T1\<close>), a second payment 10 that no
  order refers to yet, and one cart line.
\<close>

definition ex_order :: "string \<Rightarrow> Order" where
  "ex_order st =
     \<lparr>order_ID = 1, order_UserID = 5, order_OrderNumber = ''ORD-1'', order_Status = st,
      order_PaymentID = 9, order_PaymentStatus = ''pending'', order_DeletedAt = None\<rparr>"

definition ex_order_db :: "string \<Rightarrow> DB" where
  "ex_order_db st =
     \<lparr>carts = [\<lparr>cart_ID = 7, cart_UserID = 5, cart_ProductID = 3, cart_Quantity = 2\<rparr>],
      orders = [ex_order st],
      order_items = [\<lparr>item_ID = 60, item_OrderID = 1, item_ProductID = 3, item_Quantity = 2\<rparr>],
      order_status_histories =
        [\<lparr>hist_ID = 2, hist_OrderID = 1, hist_FromStatus = [], hist_ToStatus = st,
          hist_Notes = ''Order created'', hist_CreatedBy = 5\<rparr>],
      payments =
        [\<lparr>pay_ID = 9, pay_OrderID = 1, pay_UserID = 5, pay_Amount = 2700,
          pay_Method = ''bank_transfer'', pay_Status = ''pending'', pay_PaidAt = None,
          pay_TransactionID = ''T1''\<rparr>,
         \<lparr>pay_ID = 10, pay_OrderID = 0, pay_UserID = 5, pay_Amount = 500,
          pay_Method = ''bank_transfer'', pay_Status = ''pending'', pay_PaidAt = None,
          pay_TransactionID = []\<rparr>],
      products = ex_products\<rparr>"

text \<open>
  An order as it is handed to \<open>CreateOrder\<close>: no key and no status yet, to be paid by
  payment 10.
\<close>

definition ex_new_order :: Order where
  "ex_new_order =
     \<lparr>order_ID = 0, order_UserID = 5, order_OrderNumber = ''ORD-2'', order_Status = [],
      order_PaymentID = 10, order_PaymentStatus = [], order_DeletedAt = None\<rparr>"




text \<open>
  Stand-ins for the libraries (a token \<open>refresh\<close> that parses to user 1), a user table with
  one user whose stored hash is not empty, a Redis that holds that refresh token, and two
  requests.
\<close>

definition ex_lib :: Lib where
  "ex_lib =
     \<lparr>bcrypt_GenerateFromPassword = (\<lambda>p. Inr (''$2a$'' @ p)),
      bcrypt_CompareHashAndPassword = (\<lambda>h p. h = ''$2a$'' @ p),
      jwt_SignedString = (\<lambda>cs. Inr (if length cs = 5 then ''access'' else ''refresh'')),
      jwt_ParseWithClaims =
        (\<lambda>t. if t = ''refresh'' then Parsed True (Some [''user_id'' \<mapsto> JString ''id-1''])
             else ParseError),
      uuid_Parse = (\<lambda>s. if s = ''id-1'' then Some 1 else None),
      uuid_String = (\<lambda>u. if u = 1 then ''id-1'' else ''id-other''),
      redis_fault = (\<lambda>k. None)\<rparr>"

definition ex_user :: User where
  "ex_user =
     \<lparr>user_ID = 1, user_Name = ''Ann'', user_Email = ''ann@example.org'',
      user_Password = ''$2a$secret'', user_Phone = [], user_Address = [], user_Role = ''user'',
      user_IsActive = True, user_DeletedAt = None\<rparr>"

definition ex_user_state :: UserState where
  "ex_user_state = \<lparr>users = [ex_user], redis = [''refresh_token:refresh'' \<mapsto> ''id-1'']\<rparr>"

definition ex_register :: RegisterRequest where
  "ex_register =
     \<lparr>reg_Name = ''Bob'', reg_Email = ''bob@example.org'', reg_Password = ''hunter2'',
      reg_Phone = [], reg_Address = []\<rparr>"

definition ex_login :: LoginRequest where
  "ex_login = \<lparr>login_Email = ''ann@example.org'', login_Password = ''secret''\<rparr>"

section \<open>Pagination: the page count\<close>

lemma sint_add_sub:
  fixes t l :: go_int
  assumes "0 \<le> sint t" and "0 < sint l" and "sint t + sint l - 1 < 2 ^ 63"
  shows "sint (t + l - 1) = sint t + sint l - 1"
proof -
  have "t + l - 1 = word_of_int (sint t + sint l - 1)" by simp
  then have "sint (t + l - 1) = signed_take_bit 63 (sint t + sint l - 1)"
    by (simp only: sint_sbintrunc') simp
  also have "\<dots> = sint t + sint l - 1"
    using assms by (intro signed_take_bit_int_eq_self) auto
  finally show ?thesis .
qed

lemma ceil_div_int:
  fixes t b :: int
  assumes "0 < b"
  shows "(t + b - 1) div b = - ((- t) div b)"
proof -
  define q r where "q = (- t) div b" and "r = (- t) mod b"
  have 1: "- t = b * q + r" by (simp add: q_def r_def)
  have 2: "0 \<le> r" "r < b" using assms by (simp_all add: r_def)
  have "t + b - 1 = b * (- q) + (b - 1 - r)" using 1 unfolding mult_minus_right by linarith
  then have "(t + b - 1) div b = - q"
    using 2 int_div_pos_eq [of "t + b - 1" b "- q" "b - 1 - r"] by simp
  then show ?thesis by (simp add: q_def)
qed

lemma go_div_nonneg:
  fixes a b :: go_int
  assumes "0 \<le> sint a" and "0 < sint b"
  shows "\<exists>q. go_div a b = Inr q \<and> sint q = sint a div sint b"
proof -
  have b0: "b \<noteq> 0" using assms(2) by auto
  have le: "sint a div sint b \<le> sint a"
    using zdiv_mono2 [of "sint a" 1 "sint b"] assms by simp
  have ub: "sint a < 2 ^ 63" using sint_lt [of a] by simp
  have nn: "0 \<le> sint a div sint b" using assms by (simp add: pos_imp_zdiv_nonneg_iff)
  have "sgn (sint a) * sgn (sint b) * (\<bar>sint a\<bar> div \<bar>sint b\<bar>) = sint a div sint b"
    using assms by (cases "sint a = 0") auto
  moreover have "sint (word_of_int (sint a div sint b) :: go_int) = sint a div sint b"
    using le ub nn by (simp add: sint_sbintrunc' signed_take_bit_int_eq_self)
  ultimately show ?thesis using b0 by (simp add: go_div_def)
qed

text \<open>
  C10, as the code has it. When \<open>total \<ge> 0\<close>, \<open>limit > 0\<close> and the sum
  \<open>total + limit - 1\<close> still fits Go's \<^verbatim>\<open>int\<close>, \<open>NewPagination\<close> returns (it does not panic)
  a value whose \<open>TotalPages\<close> is the ceiling of \<open>total / limit\<close>, so that
  \<open>TotalPages * limit \<ge> total\<close>, \<open>(TotalPages - 1) * limit < total\<close> and \<open>TotalPages = 0\<close>
  when \<open>total = 0\<close>; \<open>Page\<close>, \<open>Limit\<close> and \<open>Total\<close> are the arguments unchanged.
\<close>

theorem NewPagination_ceiling:
  assumes "0 \<le> sint totl" and "0 < sint limit" and "sint totl + sint limit - 1 < 2 ^ 63"
  shows "\<exists>p. NewPagination page limit totl = Inr p \<and>
           Page p = page \<and> Limit p = limit \<and> Total p = totl \<and>
           sint (TotalPages p) = \<lceil>real_of_int (sint totl) / real_of_int (sint limit)\<rceil> \<and>
           sint totl \<le> sint (TotalPages p) * sint limit \<and>
           (0 < sint totl \<longrightarrow> (sint (TotalPages p) - 1) * sint limit < sint totl) \<and>
           (totl = 0 \<longrightarrow> TotalPages p = 0)"
proof -
  let ?t = "sint totl" and ?b = "sint limit"
  have s: "sint (totl + limit - 1) = ?t + ?b - 1" using assms by (rule sint_add_sub)
  then have "0 \<le> sint (totl + limit - 1)" using assms by simp
  from go_div_nonneg [OF this assms(2)] obtain q
    where q: "go_div (totl + limit - 1) limit = Inr q" and sq: "sint q = (?t + ?b - 1) div ?b"
    using s by auto
  have c: "sint q = \<lceil>real_of_int ?t / real_of_int ?b\<rceil>"
    unfolding ceiling_divide_eq_div using sq assms(2) by (simp add: ceil_div_int)
  have rb: "0 < real_of_int ?b" using assms(2) by (simp only: of_int_0_less_iff)
  have up: "?t \<le> sint q * ?b"
  proof -
    have "real_of_int ?t \<le> real_of_int (sint q) * real_of_int ?b"
      unfolding c using rb by (rule ceiling_divide_upper)
    then have "real_of_int ?t \<le> real_of_int (sint q * ?b)" by (simp only: of_int_mult)
    then show ?thesis by (simp only: of_int_le_iff)
  qed
  have lo: "(sint q - 1) * ?b < ?t"
  proof -
    have "(real_of_int (sint q) - 1) * real_of_int ?b < real_of_int ?t"
      unfolding c using rb by (rule ceiling_divide_lower)
    then have "real_of_int ((sint q - 1) * ?b) < real_of_int ?t"
      by (simp only: of_int_mult of_int_diff of_int_1)
    then show ?thesis by (simp only: of_int_less_iff)
  qed
  have z: "totl = 0 \<longrightarrow> q = 0"
  proof
    assume "totl = 0"
    then have "sint q = 0" using sq assms(2) by simp
    then have "(word_of_int (sint q) :: go_int) = word_of_int 0" by (simp only:)
    then show "q = 0" by simp
  qed
  let ?p = "\<lparr>Page = page, Limit = limit, Total = totl, TotalPages = q\<rparr>"
  have p: "NewPagination page limit totl = Inr ?p"
    using q by (simp add: NewPagination_def)
  have "Page ?p = page" "Limit ?p = limit" "Total ?p = totl" "TotalPages ?p = q"
    by simp_all
  with p c up lo z show ?thesis by metis
qed

theorem NewPagination_ceiling_witness:
  "(\<exists>p. NewPagination 3 10 25 = Inr p \<and> sint (TotalPages p) = 3 \<and>
        Page p = 3 \<and> Limit p = 10 \<and> Total p = 25 \<and>
        (sint (TotalPages p) - 1) * sint (10 :: go_int) < sint (25 :: go_int)) \<and>
   (\<exists>p. NewPagination 1 10 0 = Inr p \<and> TotalPages p = 0)"
proof -
  have h: "0 \<le> sint (25 :: go_int)" "0 < sint (10 :: go_int)"
    "sint (25 :: go_int) + sint (10 :: go_int) - 1 < 2 ^ 63"
    by simp_all
  have c: "\<lceil>real_of_int (sint (25 :: go_int)) / real_of_int (sint (10 :: go_int))\<rceil> = 3"
    unfolding ceiling_divide_eq_div by simp
  have pos: "0 < sint (25 :: go_int)" by simp
  have 1: "\<exists>p. NewPagination 3 10 25 = Inr p \<and> sint (TotalPages p) = 3 \<and>
        Page p = 3 \<and> Limit p = 10 \<and> Total p = 25 \<and>
        (sint (TotalPages p) - 1) * sint (10 :: go_int) < sint (25 :: go_int)"
    using NewPagination_ceiling [OF h, of 3] pos unfolding c by blast
  have z: "0 \<le> sint (0 :: go_int)" "0 < sint (10 :: go_int)"
    "sint (0 :: go_int) + sint (10 :: go_int) - 1 < 2 ^ 63"
    by simp_all
  have 2: "\<exists>p. NewPagination 1 10 0 = Inr p \<and> TotalPages p = 0"
    using NewPagination_ceiling [OF z, of 1] by blast
  from 1 2 show ?thesis by (rule conjI)
qed

text \<open>
  C10 as stated fails where the sum overflows: with \<open>total = 2^63 - 1\<close> and \<open>limit = 2\<close> the
  sum wraps to \<open>- 2^63\<close> and \<open>TotalPages\<close> is \<open>- 2^62\<close>, so \<open>TotalPages * limit < total\<close>.
\<close>

theorem NewPagination_overflow_counterexample:
  "0 \<le> sint (9223372036854775807 :: go_int) \<and> 0 < sint (2 :: go_int) \<and>
   NewPagination 1 2 9223372036854775807 =
     Inr \<lparr>Page = 1, Limit = 2, Total = 9223372036854775807, TotalPages = 13835058055282163712\<rparr> \<and>
   sint (13835058055282163712 :: go_int) = - 4611686018427387904 \<and>
   \<not> sint (9223372036854775807 :: go_int) \<le> sint (13835058055282163712 :: go_int) * sint (2 :: go_int)"
  by (simp add: NewPagination_def go_div_def)

section \<open>The gorm calls: basic facts\<close>

lemma gorm_First_Inl:
  "gorm_First pk cond rows = Inl e \<longleftrightarrow> filter cond rows = [] \<and> e = ErrRecordNotFound"
  by (auto simp: gorm_First_def split: list.splits)

lemma gorm_First_Inr:
  assumes "gorm_First pk cond rows = Inr r"
  shows "r \<in> set rows \<and> cond r"
proof -
  from assms obtain x xs where f: "filter cond rows = x # xs" and r: "r = arg_min_list pk (x # xs)"
    by (auto simp: gorm_First_def split: list.splits)
  have "r \<in> set (x # xs)" unfolding r by (rule arg_min_list_in) simp
  then have "r \<in> set (filter cond rows)" by (simp only: f)
  then show ?thesis by simp
qed

lemma gorm_First_single:
  "filter cond rows = [r] \<Longrightarrow> gorm_First pk cond rows = Inr r"
  by (simp add: gorm_First_def)

lemma insert_row_fresh:
  assumes "pk r \<notin> set (map pk rows)"
  shows "insert_row pk (\<lambda>x y. False) r rows = Inr (rows @ [r])"
proof -
  have "\<not> list_ex (\<lambda>x. pk x = pk r) rows"
    using assms unfolding list_ex_iff by (metis image_eqI set_map)
  then show ?thesis by (simp add: insert_row_def)
qed

lemma insert_row_error:
  "insert_row pk clash r rows = Inl e \<Longrightarrow> e = ErrUniqueViolation"
  by (auto simp: insert_row_def split: if_splits)

lemma insert_row_Inr:
  "insert_row pk clash r rows = Inr rows' \<Longrightarrow> rows' = rows @ [r] \<and> pk r \<notin> set (map pk rows)"
  by (auto simp: insert_row_def list_ex_iff split: if_splits)

lemma gorm_Create_error:
  "gorm_Create pk set_pk clash refs_ok gen r rows = Inl e \<Longrightarrow>
     e = ErrUniqueViolation \<or> e = ErrForeignKeyViolation"
  by (auto simp: gorm_Create_def Let_def split: sum.splits if_splits dest: insert_row_error)

lemma gorm_Save_error:
  "gorm_Save pk set_pk clash refs_ok same_refs gen r rows = Inl e \<Longrightarrow>
     e = ErrUniqueViolation \<or> e = ErrForeignKeyViolation"
  by (auto simp: gorm_Save_def split: if_splits dest: gorm_Create_error)

lemma gorm_Update_where_no_match:
  "\<not> list_ex cond rows \<Longrightarrow> gorm_Update_where cond f rows = rows"
  by (induction rows) (auto simp: gorm_Update_where_def)

section \<open>Cart: merging, quantities, updates\<close>

lemma gorm_First_least:
  "filter cond rows \<noteq> [] \<Longrightarrow> gorm_First pk cond rows = Inr (arg_min_list pk (filter cond rows))"
  by (cases "filter cond rows") (simp_all add: gorm_First_def)

lemma AddToCart_failure:
  "fst (AddToCart gen cart db) \<noteq> None \<Longrightarrow>
     (fst (AddToCart gen cart db) = Some ErrUniqueViolation \<or>
      fst (AddToCart gen cart db) = Some ErrForeignKeyViolation) \<and>
     snd (AddToCart gen cart db) = db"
proof (cases "gorm_First cart_ID
      (\<lambda>c. cart_UserID c = cart_UserID cart \<and> cart_ProductID c = cart_ProductID cart) (carts db)")
  case (Inl e)
  then have e: "e = ErrRecordNotFound" by (simp add: gorm_First_Inl)
  assume "fst (AddToCart gen cart db) \<noteq> None"
  then show ?thesis using Inl e
    by (auto simp: AddToCart_def split: sum.splits dest: gorm_Create_error)
next
  case (Inr x)
  assume "fst (AddToCart gen cart db) \<noteq> None"
  then show ?thesis using Inr
    by (auto simp: AddToCart_def split: sum.splits dest: gorm_Save_error)
qed

lemma AddToCart_quantity_irrelevant:
  "fst (AddToCart gen (cart\<lparr>cart_Quantity := q\<rparr>) db) = fst (AddToCart gen cart db)"
proof (cases "gorm_First cart_ID
      (\<lambda>c. cart_UserID c = cart_UserID cart \<and> cart_ProductID c = cart_ProductID cart) (carts db)")
  case (Inl e)
  then show ?thesis
    by (simp add: AddToCart_def gorm_Create_def insert_row_def cart_refs_ok_def Let_def
        split: sum.splits)
next
  case (Inr x)
  then show ?thesis
    by (simp add: AddToCart_def gorm_Save_def gorm_Create_def insert_row_def cart_refs_ok_def
        Let_def split: sum.splits)
qed

lemma list_ex_False: "\<not> list_ex (\<lambda>x. False) xs"
  by (simp add: list_ex_iff)

lemma AddToCart_existing:
  assumes ne: "cart_lines (cart_UserID cart) (cart_ProductID cart) db \<noteq> []"
      and e: "e = arg_min_list cart_ID (cart_lines (cart_UserID cart) (cart_ProductID cart) db)"
      and k: "cart_ID e \<noteq> 0"
      and d: "distinct (map cart_ID (carts db))"
  shows "AddToCart gen cart db =
           (None, db\<lparr>carts := map (\<lambda>x. if cart_ID x = cart_ID e
                                         then e\<lparr>cart_Quantity := cart_Quantity e + cart_Quantity cart\<rparr>
                                         else x) (carts db)\<rparr>)"
proof -
  let ?cond = "\<lambda>c. cart_UserID c = cart_UserID cart \<and> cart_ProductID c = cart_ProductID cart"
  let ?e' = "e\<lparr>cart_Quantity := cart_Quantity e + cart_Quantity cart\<rparr>"
  have f: "gorm_First cart_ID ?cond (carts db) = Inr e"
    using ne e gorm_First_least [of ?cond "carts db" cart_ID] by (simp add: cart_lines_def)
  from gorm_First_Inr [OF f] have mem: "e \<in> set (carts db)" by simp
  then have ex: "list_ex (\<lambda>x. cart_ID x = cart_ID e) (carts db)" by (auto simp: list_ex_iff)
  have same: "\<not> list_ex (\<lambda>x. cart_ID x = cart_ID e \<and> cart_ProductID x \<noteq> cart_ProductID e) (carts db)"
  proof -
    have "x = e" if "x \<in> set (carts db)" "cart_ID x = cart_ID e" for x
      using that mem d by (meson distinct_map inj_onD)
    then show ?thesis by (auto simp: list_ex_iff)
  qed
  have "gorm_Save cart_ID (\<lambda>i c. c\<lparr>cart_ID := i\<rparr>) (\<lambda>x c. False) (cart_refs_ok db)
          (\<lambda>x c. cart_ProductID x = cart_ProductID c) gen ?e' (carts db)
        = Inr (?e', map (\<lambda>x. if cart_ID x = cart_ID e then ?e' else x) (carts db))"
    using k ex same by (simp add: gorm_Save_def list_ex_False)
  then show ?thesis using f by (simp add: AddToCart_def)
qed

lemma AddToCart_new:
  assumes none: "cart_lines (cart_UserID cart) (cart_ProductID cart) db = []"
      and k: "k = (if cart_ID cart = 0 then gen else cart_ID cart)"
  shows "AddToCart gen cart db =
           (if k \<in> set (map cart_ID (carts db)) then (Some ErrUniqueViolation, db)
            else if cart_ProductID cart \<notin> set (map prod_ID (products db))
            then (Some ErrForeignKeyViolation, db)
            else (None, db\<lparr>carts := carts db @ [cart\<lparr>cart_ID := k\<rparr>]\<rparr>))"
proof -
  let ?cond = "\<lambda>c. cart_UserID c = cart_UserID cart \<and> cart_ProductID c = cart_ProductID cart"
  have first0: "gorm_First cart_ID ?cond (carts db) = Inl ErrRecordNotFound"
    using none by (simp add: gorm_First_def cart_lines_def)
  have r1: "(if cart_ID cart = 0 then cart\<lparr>cart_ID := gen\<rparr> else cart) = cart\<lparr>cart_ID := k\<rparr>"
    using k by simp
  have ex: "list_ex (\<lambda>x. cart_ID x = k) (carts db) \<longleftrightarrow> k \<in> set (map cart_ID (carts db))"
    by (auto simp: list_ex_iff)
  show ?thesis
    using first0 ex
    by (simp add: AddToCart_def gorm_Create_def Let_def r1 insert_row_def cart_refs_ok_def)
qed


lemma sint_add_no_overflow:
  fixes a b :: go_int
  assumes "- (2 ^ 63) \<le> sint a + sint b" and "sint a + sint b < 2 ^ 63"
  shows "sint (a + b) = sint a + sint b"
proof -
  have "sint (a + b) = signed_take_bit 63 (sint a + sint b)"
    by (simp add: sint_word_ariths)
  also have "\<dots> = sint a + sint b"
    using assms by (intro signed_take_bit_int_eq_self) auto
  finally show ?thesis .
qed

text \<open>
  C4, as the code has it. Take a user \<open>u\<close> and a product \<open>p\<close> that is a row of
  \<open>products\<close>, with no cart line for the pair yet, and two calls of \<open>AddToCart\<close> for that
  pair with quantities \<open>q1\<close> and \<open>q2\<close>. The first call inserts a line under the key \<open>k\<close>
  (the struct's own key, or the generated one when that is zero; \<open>k\<close> is unused and, as
  every generated UUID, not nil). Then both calls succeed and afterwards the pair has exactly
  one line, and the table grew by that one line only. Its quantity is \<open>q1 + q2\<close> in Go's
  \<^verbatim>\<open>int\<close>: the integer sum whenever that fits 64 bits, and the wrapped sum otherwise.
\<close>

theorem AddToCart_merge:
  assumes c1: "cart_UserID c1 = u" "cart_ProductID c1 = p"
      and c2: "cart_UserID c2 = u" "cart_ProductID c2 = p"
      and none: "cart_lines u p db = []"
      and prod: "p \<in> set (map prod_ID (products db))"
      and k: "k = (if cart_ID c1 = 0 then gen1 else cart_ID c1)"
      and fresh: "k \<notin> set (map cart_ID (carts db))" "k \<noteq> 0"
  shows "\<exists>db1 db2 l.
           AddToCart gen1 c1 db = (None, db1) \<and> AddToCart gen2 c2 db1 = (None, db2) \<and>
           cart_lines u p db2 = [l] \<and> cart_ID l = k \<and>
           cart_Quantity l = cart_Quantity c1 + cart_Quantity c2 \<and>
           (- (2 ^ 63) \<le> sint (cart_Quantity c1) + sint (cart_Quantity c2) \<and>
            sint (cart_Quantity c1) + sint (cart_Quantity c2) < 2 ^ 63 \<longrightarrow>
              sint (cart_Quantity l) = sint (cart_Quantity c1) + sint (cart_Quantity c2)) \<and>
           length (carts db2) = length (carts db) + 1"
proof -
  let ?cond = "\<lambda>c. cart_UserID c = u \<and> cart_ProductID c = p"
  let ?l1 = "c1\<lparr>cart_ID := k\<rparr>"
  let ?db1 = "db\<lparr>carts := carts db @ [?l1]\<rparr>"
  have f0: "filter ?cond (carts db) = []" using none by (simp add: cart_lines_def)
  have a1: "AddToCart gen1 c1 db = (None, ?db1)"
    using AddToCart_new [where cart = c1 and db = db and k = k and gen = gen1]
      none k fresh(1) prod c1 by simp
  have f1: "filter ?cond (carts ?db1) = [?l1]" using f0 c1 by simp
  have first1: "gorm_First cart_ID ?cond (carts ?db1) = Inr ?l1"
    using f1 by (rule gorm_First_single)
  let ?l2 = "c1\<lparr>cart_ID := k, cart_Quantity := cart_Quantity c1 + cart_Quantity c2\<rparr>"
  have old: "map (\<lambda>x. if cart_ID x = k then ?l2 else x) (carts db) = carts db"
    by (rule map_idI) (use fresh(1) in auto)
  have ok: "cart_refs_ok ?db1 ?l2" using prod c1 by (simp add: cart_refs_ok_def)
  have sv: "gorm_Save cart_ID (\<lambda>i c. c\<lparr>cart_ID := i\<rparr>) (\<lambda>x c. False) (cart_refs_ok ?db1)
      (\<lambda>x c. cart_ProductID x = cart_ProductID c) gen2 ?l2 (carts ?db1)
      = Inr (?l2, carts db @ [?l2])"
    using fresh(2) old ok by (simp add: gorm_Save_def list_ex_False)
  let ?db2 = "?db1\<lparr>carts := carts db @ [?l2]\<rparr>"
  have a2: "AddToCart gen2 c2 ?db1 = (None, ?db2)"
    using first1 sv c2 by (simp add: AddToCart_def)
  have f2: "cart_lines u p ?db2 = [?l2]" using f0 c1 by (simp add: cart_lines_def)
  have q: "cart_ID ?l2 = k" "cart_Quantity ?l2 = cart_Quantity c1 + cart_Quantity c2"
    "length (carts ?db2) = length (carts db) + 1"
    by simp_all
  have "- (2 ^ 63) \<le> sint (cart_Quantity c1) + sint (cart_Quantity c2) \<and>
        sint (cart_Quantity c1) + sint (cart_Quantity c2) < 2 ^ 63 \<longrightarrow>
          sint (cart_Quantity ?l2) = sint (cart_Quantity c1) + sint (cart_Quantity c2)"
    unfolding q(2) using sint_add_no_overflow by blast
  with a1 a2 f2 q show ?thesis by blast
qed

text \<open>Product 4, which user 1 has no line for: 2 and then 3 give one line with 5.\<close>

theorem AddToCart_merge_witness:
  "\<exists>db1 db2 l.
     AddToCart 11 \<lparr>cart_ID = 0, cart_UserID = 1, cart_ProductID = 4, cart_Quantity = 2\<rparr> ex_cart_db
       = (None, db1) \<and>
     AddToCart 12 \<lparr>cart_ID = 0, cart_UserID = 1, cart_ProductID = 4, cart_Quantity = 3\<rparr> db1
       = (None, db2) \<and>
     cart_lines 1 4 db2 = [l] \<and> cart_ID l = 11 \<and> cart_Quantity l = 5 \<and>
     sint (cart_Quantity l) = 5 \<and> length (carts db2) = 2"
proof -
  let ?c1 = "\<lparr>cart_ID = 0, cart_UserID = 1, cart_ProductID = 4, cart_Quantity = 2 :: go_int\<rparr>"
  let ?c2 = "\<lparr>cart_ID = 0, cart_UserID = 1, cart_ProductID = 4, cart_Quantity = 3 :: go_int\<rparr>"
  have h: "cart_UserID ?c1 = 1" "cart_ProductID ?c1 = 4" "cart_UserID ?c2 = 1"
    "cart_ProductID ?c2 = 4" "cart_lines 1 4 ex_cart_db = []"
    "(4 :: uuid) \<in> set (map prod_ID (products ex_cart_db))"
    "(11 :: uuid) = (if cart_ID ?c1 = 0 then 11 else cart_ID ?c1)"
    "(11 :: uuid) \<notin> set (map cart_ID (carts ex_cart_db))" "(11 :: uuid) \<noteq> 0"
    by (simp_all add: cart_lines_def ex_cart_db_def ex_products_def)
  have fits: "- (2 ^ 63) \<le> sint (cart_Quantity ?c1) + sint (cart_Quantity ?c2) \<and>
      sint (cart_Quantity ?c1) + sint (cart_Quantity ?c2) < 2 ^ 63"
    by simp
  from AddToCart_merge [OF h, of 12] fits obtain db1 db2 l
    where a: "AddToCart 11 ?c1 ex_cart_db = (None, db1)" "AddToCart 12 ?c2 db1 = (None, db2)"
      "cart_lines 1 4 db2 = [l]" "cart_ID l = 11"
      and q: "cart_Quantity l = cart_Quantity ?c1 + cart_Quantity ?c2"
      and s: "sint (cart_Quantity l) = sint (cart_Quantity ?c1) + sint (cart_Quantity ?c2)"
      and n: "length (carts db2) = length (carts ex_cart_db) + 1"
    by blast
  have "cart_Quantity l = 5" using q by simp
  moreover have "sint (cart_Quantity l) = 5" using s by simp
  moreover have "length (carts db2) = 2" using n by (simp add: ex_cart_db_def)
  ultimately show ?thesis using a by blast
qed

text \<open>
  C4 as stated fails where the sum does not fit: for product 4, \<open>2^63 - 1\<close> and then \<open>1\<close>
  both succeed and leave one line, whose quantity is \<open>- 2^63\<close> and not the sum \<open>2^63\<close>.
\<close>

theorem AddToCart_overflow_counterexample:
  "cart_lines 1 4 ex_cart_db = [] \<and>
   AddToCart 11 \<lparr>cart_ID = 0, cart_UserID = 1, cart_ProductID = 4,
                  cart_Quantity = 9223372036854775807\<rparr> ex_cart_db =
     (None, ex_cart_db\<lparr>carts :=
        [\<lparr>cart_ID = 7, cart_UserID = 1, cart_ProductID = 3, cart_Quantity = 2\<rparr>,
         \<lparr>cart_ID = 11, cart_UserID = 1, cart_ProductID = 4,
           cart_Quantity = 9223372036854775807\<rparr>]\<rparr>) \<and>
   AddToCart 12 \<lparr>cart_ID = 0, cart_UserID = 1, cart_ProductID = 4, cart_Quantity = 1\<rparr>
     (ex_cart_db\<lparr>carts :=
        [\<lparr>cart_ID = 7, cart_UserID = 1, cart_ProductID = 3, cart_Quantity = 2\<rparr>,
         \<lparr>cart_ID = 11, cart_UserID = 1, cart_ProductID = 4,
           cart_Quantity = 9223372036854775807\<rparr>]\<rparr>) =
     (None, ex_cart_db\<lparr>carts :=
        [\<lparr>cart_ID = 7, cart_UserID = 1, cart_ProductID = 3, cart_Quantity = 2\<rparr>,
         \<lparr>cart_ID = 11, cart_UserID = 1, cart_ProductID = 4,
           cart_Quantity = 9223372036854775808\<rparr>]\<rparr>) \<and>
   sint (9223372036854775807 :: go_int) + sint (1 :: go_int) = 9223372036854775808 \<and>
   sint (9223372036854775808 :: go_int) = - 9223372036854775808"
  by (simp add: AddToCart_def gorm_First_def gorm_Create_def gorm_Save_def insert_row_def
      cart_refs_ok_def cart_lines_def ex_cart_db_def ex_products_def Let_def)

text \<open>
  C7, as the code has it. \<open>AddToCart\<close> does not look at the quantity, whatever its sign.
  When the pair has a line, the call adds the quantity to the line \<open>e\<close> that \<^verbatim>\<open>First\<close>
  returns (the one with the least key) and succeeds; the keys of the table are distinct and
  the line's key is not nil, as in every table the database holds. When the pair has no
  line, the call inserts the struct as a new line under the key \<open>k\<close> (its own, or the
  generated one when that is zero), with the quantity as given; the database refuses the
  insert when \<open>k\<close> is taken (unique violation) and, if not, when the product is no row of
  \<open>products\<close> (foreign key violation). A call that fails has met one of these two refusals
  and has written nothing, and whether a call fails is the same for every quantity.
\<close>

theorem AddToCart_no_quantity_check:
  "(cart_lines (cart_UserID cart) (cart_ProductID cart) db \<noteq> [] \<and>
    e = arg_min_list cart_ID (cart_lines (cart_UserID cart) (cart_ProductID cart) db) \<and>
    cart_ID e \<noteq> 0 \<and> distinct (map cart_ID (carts db)) \<longrightarrow>
      AddToCart gen cart db =
        (None, db\<lparr>carts :=
                     map (\<lambda>x. if cart_ID x = cart_ID e
                               then e\<lparr>cart_Quantity := cart_Quantity e + cart_Quantity cart\<rparr>
                               else x) (carts db)\<rparr>)) \<and>
   (cart_lines (cart_UserID cart) (cart_ProductID cart) db = [] \<and>
    k = (if cart_ID cart = 0 then gen else cart_ID cart) \<longrightarrow>
      AddToCart gen cart db =
        (if k \<in> set (map cart_ID (carts db)) then (Some ErrUniqueViolation, db)
         else if cart_ProductID cart \<notin> set (map prod_ID (products db))
         then (Some ErrForeignKeyViolation, db)
         else (None, db\<lparr>carts := carts db @ [cart\<lparr>cart_ID := k\<rparr>]\<rparr>))) \<and>
   (fst (AddToCart gen cart db) \<noteq> None \<longrightarrow>
      (fst (AddToCart gen cart db) = Some ErrUniqueViolation \<or>
       fst (AddToCart gen cart db) = Some ErrForeignKeyViolation) \<and>
      snd (AddToCart gen cart db) = db) \<and>
   fst (AddToCart gen (cart\<lparr>cart_Quantity := q\<rparr>) db) = fst (AddToCart gen cart db)"
  using AddToCart_existing [where cart = cart and db = db and e = e and gen = gen]
    AddToCart_new [where cart = cart and db = db and k = k and gen = gen]
    AddToCart_failure [where cart = cart and db = db and gen = gen]
    AddToCart_quantity_irrelevant [where cart = cart and db = db and gen = gen and q = q]
  by blast


text \<open>
  All cases occur with a quantity that is zero or negative: \<open>-1\<close> is added to line 7, a
  line with quantity \<open>0\<close> is inserted for product 4, and a line with quantity \<open>-1\<close> is
  refused under the taken key 7 and for the unknown product 99.
\<close>

theorem AddToCart_no_quantity_check_witness:
  "AddToCart 11 \<lparr>cart_ID = 0, cart_UserID = 1, cart_ProductID = 3, cart_Quantity = - 1\<rparr> ex_cart_db =
     (None, ex_cart_db\<lparr>carts :=
        [\<lparr>cart_ID = 7, cart_UserID = 1, cart_ProductID = 3, cart_Quantity = 1\<rparr>]\<rparr>) \<and>
   AddToCart 11 \<lparr>cart_ID = 0, cart_UserID = 1, cart_ProductID = 4, cart_Quantity = 0\<rparr> ex_cart_db =
     (None, ex_cart_db\<lparr>carts :=
        [\<lparr>cart_ID = 7, cart_UserID = 1, cart_ProductID = 3, cart_Quantity = 2\<rparr>,
         \<lparr>cart_ID = 11, cart_UserID = 1, cart_ProductID = 4, cart_Quantity = 0\<rparr>]\<rparr>) \<and>
   AddToCart 11 \<lparr>cart_ID = 7, cart_UserID = 1, cart_ProductID = 4, cart_Quantity = - 1\<rparr> ex_cart_db =
     (Some ErrUniqueViolation, ex_cart_db) \<and>
   AddToCart 11 \<lparr>cart_ID = 0, cart_UserID = 1, cart_ProductID = 99, cart_Quantity = - 1\<rparr> ex_cart_db =
     (Some ErrForeignKeyViolation, ex_cart_db) \<and>
   snd (AddToCart 11 \<lparr>cart_ID = 7, cart_UserID = 1, cart_ProductID = 4, cart_Quantity = 5\<rparr> ex_cart_db)
     = ex_cart_db"
proof -
  let ?l7 = "\<lparr>cart_ID = 7, cart_UserID = 1, cart_ProductID = 3, cart_Quantity = 2 :: go_int\<rparr>"
  let ?a = "\<lparr>cart_ID = 0, cart_UserID = 1, cart_ProductID = 3, cart_Quantity = - 1 :: go_int\<rparr>"
  let ?b = "\<lparr>cart_ID = 0, cart_UserID = 1, cart_ProductID = 4, cart_Quantity = 0 :: go_int\<rparr>"
  let ?c = "\<lparr>cart_ID = 7, cart_UserID = 1, cart_ProductID = 4, cart_Quantity = - 1 :: go_int\<rparr>"
  let ?d = "\<lparr>cart_ID = 0, cart_UserID = 1, cart_ProductID = 99, cart_Quantity = - 1 :: go_int\<rparr>"
  have ha: "cart_lines (cart_UserID ?a) (cart_ProductID ?a) ex_cart_db \<noteq> [] \<and>
      ?l7 = arg_min_list cart_ID (cart_lines (cart_UserID ?a) (cart_ProductID ?a) ex_cart_db) \<and>
      cart_ID ?l7 \<noteq> 0 \<and> distinct (map cart_ID (carts ex_cart_db))"
    by (simp add: cart_lines_def ex_cart_db_def)
  have 1: "AddToCart 11 ?a ex_cart_db =
      (None, ex_cart_db\<lparr>carts :=
         [\<lparr>cart_ID = 7, cart_UserID = 1, cart_ProductID = 3, cart_Quantity = 1\<rparr>]\<rparr>)"
    using AddToCart_no_quantity_check [where cart = ?a and db = ex_cart_db and e = ?l7 and gen = 11,
        THEN conjunct1, THEN mp, OF ha]
    by (simp add: ex_cart_db_def)
  have hb: "cart_lines (cart_UserID ?b) (cart_ProductID ?b) ex_cart_db = [] \<and>
      (11 :: uuid) = (if cart_ID ?b = 0 then 11 else cart_ID ?b)"
    by (simp add: cart_lines_def ex_cart_db_def)
  have 2: "AddToCart 11 ?b ex_cart_db =
      (None, ex_cart_db\<lparr>carts := [?l7, \<lparr>cart_ID = 11, cart_UserID = 1, cart_ProductID = 4,
         cart_Quantity = 0\<rparr>]\<rparr>)"
    using AddToCart_no_quantity_check [where cart = ?b and db = ex_cart_db and k = 11 and gen = 11,
        THEN conjunct2, THEN conjunct1, THEN mp, OF hb]
    by (simp add: ex_cart_db_def ex_products_def)
  have hc: "cart_lines (cart_UserID ?c) (cart_ProductID ?c) ex_cart_db = [] \<and>
      (7 :: uuid) = (if cart_ID ?c = 0 then 11 else cart_ID ?c)"
    by (simp add: cart_lines_def ex_cart_db_def)
  have 3: "AddToCart 11 ?c ex_cart_db = (Some ErrUniqueViolation, ex_cart_db)"
    using AddToCart_no_quantity_check [where cart = ?c and db = ex_cart_db and k = 7 and gen = 11,
        THEN conjunct2, THEN conjunct1, THEN mp, OF hc]
    by (simp add: ex_cart_db_def ex_products_def)
  have hd: "cart_lines (cart_UserID ?d) (cart_ProductID ?d) ex_cart_db = [] \<and>
      (11 :: uuid) = (if cart_ID ?d = 0 then 11 else cart_ID ?d)"
    by (simp add: cart_lines_def ex_cart_db_def)
  have 4: "AddToCart 11 ?d ex_cart_db = (Some ErrForeignKeyViolation, ex_cart_db)"
    using AddToCart_no_quantity_check [where cart = ?d and db = ex_cart_db and k = 11 and gen = 11,
        THEN conjunct2, THEN conjunct1, THEN mp, OF hd]
    by (simp add: ex_cart_db_def ex_products_def)
  have f: "fst (AddToCart 11 (?c\<lparr>cart_Quantity := 5\<rparr>) ex_cart_db) \<noteq> None"
    using AddToCart_no_quantity_check [where cart = ?c and db = ex_cart_db and q = 5 and gen = 11]
      3
    by simp
  have 5: "snd (AddToCart 11 \<lparr>cart_ID = 7, cart_UserID = 1, cart_ProductID = 4, cart_Quantity = 5\<rparr>
      ex_cart_db) = ex_cart_db"
    using AddToCart_no_quantity_check [where cart = "?c\<lparr>cart_Quantity := 5\<rparr>"
        and db = ex_cart_db and gen = 11] f
    by simp
  from 1 2 3 4 5 show ?thesis by (intro conjI) assumption+
qed

text \<open>
  C7 as stated fails: a call with quantity \<open>-1\<close> succeeds. For a new pair it creates a line
  with quantity \<open>-1\<close>; for the pair of line 7 it lowers that line's quantity from 2 to 1.
\<close>

theorem AddToCart_negative_quantity_counterexample:
  "sint (- 1 :: go_int) \<le> 0 \<and>
   AddToCart 11 \<lparr>cart_ID = 0, cart_UserID = 1, cart_ProductID = 4, cart_Quantity = - 1\<rparr> ex_cart_db =
     (None, ex_cart_db\<lparr>carts :=
        [\<lparr>cart_ID = 7, cart_UserID = 1, cart_ProductID = 3, cart_Quantity = 2\<rparr>,
         \<lparr>cart_ID = 11, cart_UserID = 1, cart_ProductID = 4, cart_Quantity = - 1\<rparr>]\<rparr>) \<and>
   AddToCart 11 \<lparr>cart_ID = 0, cart_UserID = 1, cart_ProductID = 3, cart_Quantity = - 1\<rparr> ex_cart_db =
     (None, ex_cart_db\<lparr>carts :=
        [\<lparr>cart_ID = 7, cart_UserID = 1, cart_ProductID = 3, cart_Quantity = 1\<rparr>]\<rparr>)"
  by (simp add: AddToCart_def gorm_First_def gorm_Create_def gorm_Save_def insert_row_def
      cart_refs_ok_def ex_cart_db_def ex_products_def Let_def)

text \<open>
  C8, as the code has it. \<open>UpdateCartItem\<close> returns no error for any arguments. When no
  cart line with that id belongs to that user it changes nothing; otherwise it sets the
  quantity of the matching line and leaves every other line as it was.
\<close>

theorem UpdateCartItem_always_succeeds:
  "fst (UpdateCartItem cartID userID quantity db) = None \<and>
   (\<not> list_ex (\<lambda>c. cart_ID c = cartID \<and> cart_UserID c = userID) (carts db) \<longrightarrow>
      snd (UpdateCartItem cartID userID quantity db) = db) \<and>
   carts (snd (UpdateCartItem cartID userID quantity db)) =
     map (\<lambda>c. if cart_ID c = cartID \<and> cart_UserID c = userID
               then c\<lparr>cart_Quantity := quantity\<rparr> else c) (carts db)"
  by (simp add: UpdateCartItem_def gorm_Update_where_no_match) (simp add: gorm_Update_where_def)

theorem UpdateCartItem_always_succeeds_witness:
  "fst (UpdateCartItem 8 1 5 ex_cart_db) = None \<and> snd (UpdateCartItem 8 1 5 ex_cart_db) = ex_cart_db"
proof -
  have "\<not> list_ex (\<lambda>c. cart_ID c = 8 \<and> cart_UserID c = 1) (carts ex_cart_db)"
    by (simp add: ex_cart_db_def)
  with UpdateCartItem_always_succeeds [of 8 1 5 ex_cart_db] show ?thesis by simp
qed

text \<open>
  C8 as stated fails: line 7 belongs to user 1, and an update of line 7 on behalf of user 9
  returns success (and changes nothing) instead of failing.
\<close>

theorem UpdateCartItem_foreign_line_counterexample:
  "carts ex_cart_db = [\<lparr>cart_ID = 7, cart_UserID = 1, cart_ProductID = 3, cart_Quantity = 2\<rparr>] \<and>
   UpdateCartItem 7 9 5 ex_cart_db = (None, ex_cart_db)"
  by (simp add: UpdateCartItem_def gorm_Update_where_def ex_cart_db_def)

section \<open>Orders: status transitions and their history\<close>

lemma gorm_First_exists:
  "filter cond rows \<noteq> [] \<Longrightarrow> \<exists>r. gorm_First pk cond rows = Inr r"
  by (cases "filter cond rows") (simp_all add: gorm_First_def)

lemma Transaction_failure:
  "fst (Transaction fc db) \<noteq> None \<Longrightarrow> snd (Transaction fc db) = db"
  by (simp add: Transaction_def split: sum.splits)

lemma Transaction_None:
  "Transaction fc db = (None, db') \<longleftrightarrow> fc db = Inr db'"
  by (simp add: Transaction_def split: sum.splits)

lemma UpdateOrderStatus_success:
  assumes "UpdateOrderStatus newID orderID status notes updatedBy db = (None, db')"
  shows "list_ex (\<lambda>r. order_ID r = orderID \<and> order_DeletedAt r = None) (orders db) \<and>
         orderID \<noteq> 0 \<and> newID \<notin> set (map hist_ID (order_status_histories db)) \<and>
         db' = db\<lparr>orders :=
                    map (\<lambda>r. if order_ID r = orderID \<and> order_DeletedAt r = None
                              then r\<lparr>order_Status := status\<rparr> else r) (orders db),
                  order_status_histories :=
                    order_status_histories db @
                      [\<lparr>hist_ID = newID, hist_OrderID = orderID, hist_FromStatus = status,
                        hist_ToStatus = status, hist_Notes = notes, hist_CreatedBy = updatedBy\<rparr>]\<rparr>"
proof -
  let ?cond = "\<lambda>r. order_ID r = orderID \<and> order_DeletedAt r = None"
  from assms obtain order where f: "gorm_First order_ID ?cond (orders db) = Inr order"
    by (auto simp: UpdateOrderStatus_def Transaction_None split: sum.splits)
  then have o: "order \<in> set (orders db)" "order_ID order = orderID" "order_DeletedAt order = None"
    using gorm_First_Inr [OF f] by auto
  then have ex: "list_ex ?cond (orders db)" by (auto simp: list_ex_iff)
  from assms f o show ?thesis
    using ex
    by (auto simp: UpdateOrderStatus_def Transaction_None gorm_Model_Update_def insert_row_def
        list_ex_iff Let_def split: sum.splits if_splits)
qed

lemma UpdateOrderStatus_succeeds:
  assumes "list_ex (\<lambda>r. order_ID r = orderID \<and> order_DeletedAt r = None) (orders db)"
      and "orderID \<noteq> 0"
      and "newID \<notin> set (map hist_ID (order_status_histories db))"
  shows "fst (UpdateOrderStatus newID orderID status notes updatedBy db) = None"
proof -
  let ?cond = "\<lambda>r. order_ID r = orderID \<and> order_DeletedAt r = None"
  from assms(1) have "filter ?cond (orders db) \<noteq> []"
    by (auto simp: list_ex_iff filter_empty_conv)
  then obtain order where f: "gorm_First order_ID ?cond (orders db) = Inr order"
    using gorm_First_exists by blast
  then have o: "order_ID order = orderID" using gorm_First_Inr [OF f] by auto
  let ?h = "\<lparr>hist_ID = newID, hist_OrderID = orderID, hist_FromStatus = status,
           hist_ToStatus = status, hist_Notes = notes, hist_CreatedBy = updatedBy\<rparr>"
  have "insert_row hist_ID (\<lambda>x h. False) ?h (order_status_histories db)
        = Inr (order_status_histories db @ [?h])"
    using assms(3) by (intro insert_row_fresh) simp
  then show ?thesis using f o assms(2)
    by (simp add: UpdateOrderStatus_def Transaction_def gorm_Model_Update_def Let_def)
qed


text \<open>
  C1, as the code has it. \<open>UpdateOrderStatus\<close> holds no transition table. Whenever a call
  fails, it has written nothing: the database, and with it the order's status and its history
  rows, is unchanged. But a call for an order that exists (and is not soft-deleted), with a
  non-nil order id and an unused id for the new history row, succeeds for every target
  status, whatever the order's current status: it sets the order's status to the target and
  appends one history row for the order, whose \<open>ToStatus\<close> is the target.
\<close>

theorem UpdateOrderStatus_no_transition_check:
  "(fst (UpdateOrderStatus newID orderID status remark updatedBy db) \<noteq> None \<longrightarrow>
      snd (UpdateOrderStatus newID orderID status remark updatedBy db) = db) \<and>
   (list_ex (\<lambda>r. order_ID r = orderID \<and> order_DeletedAt r = None) (orders db) \<and>
    orderID \<noteq> 0 \<and> newID \<notin> set (map hist_ID (order_status_histories db)) \<longrightarrow>
      (\<exists>db' h. UpdateOrderStatus newID orderID status remark updatedBy db = (None, db') \<and>
         orders db' =
           map (\<lambda>r. if order_ID r = orderID \<and> order_DeletedAt r = None
                     then r\<lparr>order_Status := status\<rparr> else r) (orders db) \<and>
         order_status_histories db' = order_status_histories db @ [h] \<and>
         hist_ID h = newID \<and> hist_OrderID h = orderID \<and> hist_ToStatus h = status))"
proof (intro conjI impI)
  assume "fst (UpdateOrderStatus newID orderID status remark updatedBy db) \<noteq> None"
  then show "snd (UpdateOrderStatus newID orderID status remark updatedBy db) = db"
    unfolding UpdateOrderStatus_def by (rule Transaction_failure)
next
  assume a: "list_ex (\<lambda>r. order_ID r = orderID \<and> order_DeletedAt r = None) (orders db) \<and>
    orderID \<noteq> 0 \<and> newID \<notin> set (map hist_ID (order_status_histories db))"
  then have "fst (UpdateOrderStatus newID orderID status remark updatedBy db) = None"
    by (intro UpdateOrderStatus_succeeds) auto
  then obtain db' where r: "UpdateOrderStatus newID orderID status remark updatedBy db = (None, db')"
    by (metis prod.collapse)
  from UpdateOrderStatus_success [OF r] have
    "orders db' =
       map (\<lambda>r. if order_ID r = orderID \<and> order_DeletedAt r = None
                 then r\<lparr>order_Status := status\<rparr> else r) (orders db)"
    "order_status_histories db' = order_status_histories db @
       [\<lparr>hist_ID = newID, hist_OrderID = orderID, hist_FromStatus = status,
         hist_ToStatus = status, hist_Notes = remark, hist_CreatedBy = updatedBy\<rparr>]"
    by simp_all
  with r show "\<exists>db' h. UpdateOrderStatus newID orderID status remark updatedBy db = (None, db') \<and>
         orders db' =
           map (\<lambda>r. if order_ID r = orderID \<and> order_DeletedAt r = None
                     then r\<lparr>order_Status := status\<rparr> else r) (orders db) \<and>
         order_status_histories db' = order_status_histories db @ [h] \<and>
         hist_ID h = newID \<and> hist_OrderID h = orderID \<and> hist_ToStatus h = status"
    by (intro exI conjI) (assumption, assumption, assumption, simp_all)
qed

lemma ex_UOS_eval:
  "UpdateOrderStatus 3 1 ''pending'' ''back'' 5 (ex_order_db ''delivered'') =
     (None, (ex_order_db ''pending'')
        \<lparr>order_status_histories :=
           [\<lparr>hist_ID = 2, hist_OrderID = 1, hist_FromStatus = [], hist_ToStatus = ''delivered'',
             hist_Notes = ''Order created'', hist_CreatedBy = 5\<rparr>,
            \<lparr>hist_ID = 3, hist_OrderID = 1, hist_FromStatus = ''pending'', hist_ToStatus = ''pending'',
             hist_Notes = ''back'', hist_CreatedBy = 5\<rparr>]\<rparr>)"
  by (simp add: UpdateOrderStatus_def Transaction_def gorm_First_def gorm_Model_Update_def
      insert_row_def ex_order_db_def ex_order_def Let_def)

text \<open>
  C1 as stated fails: \<open>delivered \<rightarrow> pending\<close> is outside the allowed set, yet the call
  succeeds, the order's status becomes \<open>pending\<close> and a second history row is written.
\<close>

theorem UpdateOrderStatus_illegal_transition_counterexample:
  "(''delivered'', ''pending'') \<notin> set spec_allowed_transitions \<and>
   map order_Status (orders (ex_order_db ''delivered'')) = [''delivered''] \<and>
   fst (UpdateOrderStatus 3 1 ''pending'' ''back'' 5 (ex_order_db ''delivered'')) = None \<and>
   map order_Status
     (orders (snd (UpdateOrderStatus 3 1 ''pending'' ''back'' 5 (ex_order_db ''delivered''))))
     = [''pending''] \<and>
   length (order_status_histories
     (snd (UpdateOrderStatus 3 1 ''pending'' ''back'' 5 (ex_order_db ''delivered'')))) = 2"
  unfolding ex_UOS_eval by (simp add: spec_allowed_transitions_def ex_order_db_def ex_order_def)

text \<open>
  Both cases occur: order 4 does not exist, the call fails and nothing is written; order 1 is
  \<open>delivered\<close> and is moved to \<open>pending\<close>.
\<close>

theorem UpdateOrderStatus_no_transition_check_witness:
  "fst (UpdateOrderStatus 3 4 ''confirmed'' [] 5 (ex_order_db ''pending'')) = Some ErrRecordNotFound \<and>
   snd (UpdateOrderStatus 3 4 ''confirmed'' [] 5 (ex_order_db ''pending'')) = ex_order_db ''pending'' \<and>
   (\<exists>db' h. UpdateOrderStatus 3 1 ''pending'' ''back'' 5 (ex_order_db ''delivered'') = (None, db') \<and>
      map order_Status (orders db') = [''pending''] \<and>
      order_status_histories db' = order_status_histories (ex_order_db ''delivered'') @ [h] \<and>
      hist_ToStatus h = ''pending'')"
proof -
  have f: "fst (UpdateOrderStatus 3 4 ''confirmed'' [] 5 (ex_order_db ''pending'')) = Some ErrRecordNotFound"
    by (simp add: UpdateOrderStatus_def Transaction_def gorm_First_def ex_order_db_def ex_order_def)
  have 1: "snd (UpdateOrderStatus 3 4 ''confirmed'' [] 5 (ex_order_db ''pending'')) = ex_order_db ''pending''"
    using UpdateOrderStatus_no_transition_check
      [where newID = 3 and orderID = 4 and status = "''confirmed''" and remark = "[]"
         and updatedBy = 5 and db = "ex_order_db ''pending''"] f
    by simp
  have h: "list_ex (\<lambda>r. order_ID r = 1 \<and> order_DeletedAt r = None) (orders (ex_order_db ''delivered'')) \<and>
      (1 :: uuid) \<noteq> 0 \<and> (3 :: uuid) \<notin> set (map hist_ID (order_status_histories (ex_order_db ''delivered'')))"
    by (simp add: ex_order_db_def ex_order_def)
  from UpdateOrderStatus_no_transition_check
      [where newID = 3 and orderID = 1 and status = "''pending''" and remark = "''back''"
         and updatedBy = 5 and db = "ex_order_db ''delivered''"] h
  obtain db' h where
    r: "UpdateOrderStatus 3 1 ''pending'' ''back'' 5 (ex_order_db ''delivered'') = (None, db')"
    and o: "orders db' = map (\<lambda>r. if order_ID r = 1 \<and> order_DeletedAt r = None
               then r\<lparr>order_Status := ''pending''\<rparr> else r) (orders (ex_order_db ''delivered''))"
    and hs: "order_status_histories db' = order_status_histories (ex_order_db ''delivered'') @ [h]"
      "hist_ToStatus h = ''pending''"
    by blast
  have "map order_Status (orders db') = [''pending'']"
    unfolding o by (simp add: ex_order_db_def ex_order_def)
  with f 1 r hs show ?thesis
    by (intro conjI exI [of _ db'] exI [of _ h]) assumption+
qed

text \<open>
  C2, evaluated. Order 1 is \<open>pending\<close> and is moved to \<open>confirmed\<close>. The history row the
  call inserts has \<open>FromStatus = confirmed\<close>, the new status, not the prior status
  \<open>pending\<close>: \<^verbatim>\<open>order.Status\<close> is read after the update has assigned the new status to
  the struct. (For every successful call the inserted row has \<open>FromStatus = ToStatus\<close>, see
  \<open>UpdateOrderStatus_success\<close>.)
\<close>

theorem UpdateOrderStatus_from_status_evaluated:
  "map order_Status (orders (ex_order_db ''pending'')) = [''pending''] \<and>
   fst (UpdateOrderStatus 3 1 ''confirmed'' ''paid'' 5 (ex_order_db ''pending'')) = None \<and>
   map (\<lambda>h. (hist_FromStatus h, hist_ToStatus h))
     (order_histories 1 (snd (UpdateOrderStatus 3 1 ''confirmed'' ''paid'' 5 (ex_order_db ''pending''))))
     = [([], ''pending''), (''confirmed'', ''confirmed'')]"
  by (simp add: UpdateOrderStatus_def Transaction_def gorm_First_def gorm_Model_Update_def
      insert_row_def ex_order_db_def ex_order_def order_histories_def Let_def)


lemma CreateOrder_success:
  assumes "CreateOrder newID gen order db = (None, db0)"
      and "oid = (if order_ID order = 0 then gen else order_ID order)"
  shows "oid \<notin> set (map order_ID (orders db)) \<and>
         db0 = db\<lparr>orders := orders db @ [(order_defaults order)\<lparr>order_ID := oid\<rparr>],
                  order_status_histories :=
                    order_status_histories db @
                      [\<lparr>hist_ID = newID, hist_OrderID = oid, hist_FromStatus = [],
                        hist_ToStatus = order_Status (order_defaults order),
                        hist_Notes = ''Order created'', hist_CreatedBy = order_UserID order\<rparr>]\<rparr>"
proof -
  let ?r = "(order_defaults order)\<lparr>order_ID := oid\<rparr>"
  let ?h = "\<lparr>hist_ID = newID, hist_OrderID = oid, hist_FromStatus = [],
             hist_ToStatus = order_Status (order_defaults order),
             hist_Notes = ''Order created'', hist_CreatedBy = order_UserID order\<rparr>"
  have r: "(if order_ID (order_defaults order) = 0
            then (order_defaults order)\<lparr>order_ID := gen\<rparr> else order_defaults order) = ?r"
    using assms(2) by (simp add: order_defaults_def)
  have u: "order_UserID ?r = order_UserID order" "order_ID ?r = oid"
    "order_Status ?r = order_Status (order_defaults order)"
    by (simp_all add: order_defaults_def)
  have u': "order_UserID (order_defaults order) = order_UserID order"
    by (simp add: order_defaults_def)
  from assms(1) obtain o' rows
    where g: "gorm_Create order_ID (\<lambda>i r. r\<lparr>order_ID := i\<rparr>)
                (\<lambda>x r. order_OrderNumber x = order_OrderNumber r) (order_refs_ok db) gen
                (order_defaults order) (orders db) = Inr (o', rows)"
    unfolding CreateOrder_def Transaction_None by (auto split: sum.splits)
  from g obtain rows' where
    i: "insert_row order_ID (\<lambda>x r. order_OrderNumber x = order_OrderNumber r) ?r (orders db)
          = Inr rows'"
    and o: "o' = ?r" "rows = rows'"
    unfolding gorm_Create_def Let_def r by (auto split: sum.splits if_splits)
  from insert_row_Inr [OF i] have rows: "rows = orders db @ [?r]"
    and fresh: "oid \<notin> set (map order_ID (orders db))"
    using o u(2) by simp_all
  from assms(1) have h: "insert_row hist_ID (\<lambda>x h. False) ?h (order_status_histories db)
      = Inr (order_status_histories db0) \<and>
      db0 = db\<lparr>orders := rows, order_status_histories := order_status_histories db0\<rparr>"
    unfolding CreateOrder_def Transaction_None g o(1) u
    by (auto simp: Let_def u' split: sum.splits)
  from insert_row_Inr [OF h [THEN conjunct1]]
  have "order_status_histories db0 = order_status_histories db @ [?h]" by simp
  with h rows fresh show ?thesis by simp
qed

lemma filter_key_map:
  assumes "\<And>x. pk (f x) = pk x"
  shows "filter (\<lambda>r. pk r = k) (map f xs) = map f (filter (\<lambda>r. pk r = k) xs)"
  by (induction xs) (simp_all add: assms)

lemma transition_step:
  assumes "UpdateOrderStatus newID oid status notes updatedBy db = (None, db')"
      and "order_rows oid db = [r]"
  shows "order_rows oid db' = [r\<lparr>order_Status := status\<rparr>] \<and>
         (\<exists>h. order_histories oid db' = order_histories oid db @ [h] \<and> hist_ToStatus h = status)"
proof -
  let ?f = "\<lambda>r. if order_ID r = oid \<and> order_DeletedAt r = None
                 then r\<lparr>order_Status := status\<rparr> else r"
  note s = UpdateOrderStatus_success [OF assms(1)]
  from s obtain x where x: "x \<in> set (orders db)" "order_ID x = oid" "order_DeletedAt x = None"
    by (auto simp: list_ex_iff)
  then have "x \<in> set (order_rows oid db)" by (simp add: order_rows_def)
  then have live: "order_ID r = oid" "order_DeletedAt r = None"
    using assms(2) x by auto
  have "order_rows oid db' = filter (\<lambda>r. order_ID r = oid) (map ?f (orders db))"
    using s by (simp add: order_rows_def)
  also have "\<dots> = map ?f (filter (\<lambda>r. order_ID r = oid) (orders db))"
    by (rule filter_key_map) simp
  also have "\<dots> = [r\<lparr>order_Status := status\<rparr>]"
    using assms(2) live by (simp add: order_rows_def)
  finally have 1: "order_rows oid db' = [r\<lparr>order_Status := status\<rparr>]" .
  have 2: "\<exists>h. order_histories oid db' = order_histories oid db @ [h] \<and> hist_ToStatus h = status"
    using s by (simp add: order_histories_def)
  from 1 2 show ?thesis by simp
qed

lemma run_transitions_invariant:
  assumes "run_transitions oid ts db = Some db'"
      and "order_rows oid db = [r]"
      and "order_histories oid db \<noteq> []"
      and "order_Status r = hist_ToStatus (last (order_histories oid db))"
  shows "\<exists>r'. order_rows oid db' = [r'] \<and>
           order_Status r' = hist_ToStatus (last (order_histories oid db')) \<and>
           length (order_histories oid db') = length (order_histories oid db) + length ts"
  using assms
proof (induction ts arbitrary: db r)
  case Nil
  then show ?case by simp
next
  case (Cons t ts)
  obtain newID status nts updatedBy where t: "t = (newID, status, nts, updatedBy)"
    by (cases t) auto
  from Cons.prems(1) obtain db1
    where u: "UpdateOrderStatus newID oid status nts updatedBy db = (None, db1)"
      and rest: "run_transitions oid ts db1 = Some db'"
    unfolding t by (auto split: prod.splits option.splits)
  from transition_step [OF u Cons.prems(2)] obtain h
    where r1: "order_rows oid db1 = [r\<lparr>order_Status := status\<rparr>]"
      and h1: "order_histories oid db1 = order_histories oid db @ [h]" "hist_ToStatus h = status"
    by blast
  have ne: "order_histories oid db1 \<noteq> []" using h1 by simp
  have st: "order_Status (r\<lparr>order_Status := status\<rparr>) = hist_ToStatus (last (order_histories oid db1))"
    using h1 by simp
  from Cons.IH [OF rest r1 ne st] obtain r'
    where "order_rows oid db' = [r']"
      "order_Status r' = hist_ToStatus (last (order_histories oid db'))"
      "length (order_histories oid db') = length (order_histories oid db1) + length ts"
    by blast
  then show ?case using h1 by simp
qed

text \<open>
  C3. Let \<open>CreateOrder\<close> succeed on a database that holds no history row for the new
  order's id \<open>oid\<close> (the struct's key, or the generated one), and let \<open>n\<close> calls of
  \<open>UpdateOrderStatus\<close> for that order follow, all successful. Then there is exactly one
  order row with that id, its status is the \<open>ToStatus\<close> of the order's most recently created
  history row, and the order has \<open>1 + n\<close> history rows.
\<close>

theorem history_follows_status:
  assumes "CreateOrder newID gen order db = (None, db0)"
      and "oid = (if order_ID order = 0 then gen else order_ID order)"
      and "order_histories oid db = []"
      and "run_transitions oid ts db0 = Some db'"
  shows "\<exists>r. order_rows oid db' = [r] \<and>
           order_Status r = hist_ToStatus (last (order_histories oid db')) \<and>
           length (order_histories oid db') = 1 + length ts"
proof -
  let ?r = "(order_defaults order)\<lparr>order_ID := oid\<rparr>"
  note c = CreateOrder_success [OF assms(1,2)]
  have "filter (\<lambda>r. order_ID r = oid) (orders db) = []"
    using c by (auto simp: filter_empty_conv)
  then have rows: "order_rows oid db0 = [?r]"
    using c by (simp add: order_rows_def)
  have hs: "order_histories oid db0 =
      [\<lparr>hist_ID = newID, hist_OrderID = oid, hist_FromStatus = [],
        hist_ToStatus = order_Status (order_defaults order),
        hist_Notes = ''Order created'', hist_CreatedBy = order_UserID order\<rparr>]"
    using c assms(3) by (simp add: order_histories_def)
  have ne: "order_histories oid db0 \<noteq> []" and
    st: "order_Status ?r = hist_ToStatus (last (order_histories oid db0))"
    unfolding hs by simp_all
  from run_transitions_invariant [OF assms(4) rows ne st] show ?thesis
    unfolding hs by simp
qed


lemma ex_CreateOrder_eval:
  "CreateOrder 70 71 ex_new_order (ex_order_db ''pending'') =
     (None, (ex_order_db ''pending'')
        \<lparr>orders := [ex_order ''pending'',
            \<lparr>order_ID = 71, order_UserID = 5, order_OrderNumber = ''ORD-2'',
             order_Status = ''pending'', order_PaymentID = 10, order_PaymentStatus = ''pending'',
             order_DeletedAt = None\<rparr>],
         order_status_histories :=
           [\<lparr>hist_ID = 2, hist_OrderID = 1, hist_FromStatus = [], hist_ToStatus = ''pending'',
             hist_Notes = ''Order created'', hist_CreatedBy = 5\<rparr>,
            \<lparr>hist_ID = 70, hist_OrderID = 71, hist_FromStatus = [], hist_ToStatus = ''pending'',
             hist_Notes = ''Order created'', hist_CreatedBy = 5\<rparr>]\<rparr>)"
  by (simp add: CreateOrder_def Transaction_def gorm_Create_def insert_row_def order_defaults_def
      order_refs_ok_def ex_order_db_def ex_order_def ex_new_order_def Let_def)

text \<open>
  An order created as \<open>pending\<close>, then confirmed, then shipped: three history rows.
\<close>

theorem history_follows_status_witness:
  "\<exists>db0 db' r.
     CreateOrder 70 71 ex_new_order (ex_order_db ''pending'') = (None, db0) \<and>
     run_transitions 71 [(72, ''confirmed'', ''paid'', 5), (73, ''shipped'', ''sent'', 5)] db0 = Some db' \<and>
     order_rows 71 db' = [r] \<and>
     order_Status r = hist_ToStatus (last (order_histories 71 db')) \<and>
     length (order_histories 71 db') = 3"
proof -
  let ?ts = "[(72, ''confirmed'', ''paid'', 5), (73, ''shipped'', ''sent'', 5)]
              :: (uuid \<times> string \<times> string \<times> uuid) list"
  obtain db0 where c: "CreateOrder 70 71 ex_new_order (ex_order_db ''pending'') = (None, db0)"
    using ex_CreateOrder_eval by blast
  have "\<exists>db'. run_transitions 71 ?ts db0 = Some db'"
    using c unfolding ex_CreateOrder_eval
    by (auto simp: UpdateOrderStatus_def Transaction_def gorm_First_def gorm_Model_Update_def
        insert_row_def ex_order_db_def ex_order_def Let_def)
  then obtain db' where t: "run_transitions 71 ?ts db0 = Some db'" by blast
  have h: "(71 :: uuid) = (if order_ID ex_new_order = 0 then 71 else order_ID ex_new_order)"
    "order_histories 71 (ex_order_db ''pending'') = []"
    by (simp_all add: ex_new_order_def order_histories_def ex_order_db_def)
  from history_follows_status [OF c h t] obtain r where
    "order_rows 71 db' = [r]" "order_Status r = hist_ToStatus (last (order_histories 71 db'))"
    "length (order_histories 71 db') = 1 + length ?ts"
    by blast
  then have "order_rows 71 db' = [r]" "order_Status r = hist_ToStatus (last (order_histories 71 db'))"
    "length (order_histories 71 db') = 3"
    by simp_all
  with c t show ?thesis by (intro exI [of _ db0] exI [of _ db'] exI [of _ r] conjI) assumption+
qed

section \<open>Checkout: one atomic unit\<close>











section \<open>Payment callbacks: applying a callback again\<close>








section \<open>Users: no password in what the service returns\<close>

lemma Register_clears:
  "fst (Register lib now newID gen req st) = Inr resp \<Longrightarrow> user_Password (resp_User resp) = []"
  by (auto simp: Register_def Let_def split: sum.splits option.splits prod.splits)

lemma Login_clears:
  "fst (Login lib now lreq st) = Inr resp \<Longrightarrow> user_Password (resp_User resp) = []"
  by (auto simp: Login_def split: sum.splits option.splits prod.splits if_splits)

lemma RefreshToken_clears:
  "fst (RefreshToken lib now token st) = Inr resp \<Longrightarrow> user_Password (resp_User resp) = []"
  by (auto simp: RefreshToken_def Let_def
      split: parsed_token.splits sum.splits option.splits prod.splits if_splits jvalue.splits)

lemma GetProfile_clears: "GetProfile userID st = Inr u \<Longrightarrow> user_Password u = []"
  by (auto simp: GetProfile_def split: sum.splits option.splits)

lemma GetUserByID_clears: "GetUserByID userID st = Inr u \<Longrightarrow> user_Password u = []"
  by (auto simp: GetUserByID_def split: sum.splits option.splits)

lemma UpdateProfile_clears:
  "fst (UpdateProfile gen userID updates st) = Inr u \<Longrightarrow> user_Password u = []"
  by (auto simp: UpdateProfile_def Let_def split: sum.splits option.splits prod.splits)

lemma GetAllUsers_clears:
  "GetAllUsers page limit st = Inr (us, n) \<Longrightarrow> list_all (\<lambda>u. user_Password u = []) us"
  by (auto simp: GetAllUsers_def list_all_iff split: sum.splits prod.splits)

text \<open>
  C9. Whenever \<open>Register\<close>, \<open>Login\<close>, \<open>RefreshToken\<close>, \<open>GetProfile\<close>, \<open>GetUserByID\<close>,
  \<open>GetAllUsers\<close> or \<open>UpdateProfile\<close> returns a user (or users) rather than an error, the
  \<open>Password\<close> field of every returned user is the empty string, whatever the libraries
  return and whatever the tables hold.
\<close>

theorem returned_user_has_no_password:
  "(fst (Register lib now newID gen req st) = Inr resp \<longrightarrow> user_Password (resp_User resp) = []) \<and>
   (fst (Login lib now lreq st) = Inr resp \<longrightarrow> user_Password (resp_User resp) = []) \<and>
   (fst (RefreshToken lib now token st) = Inr resp \<longrightarrow> user_Password (resp_User resp) = []) \<and>
   (GetProfile userID st = Inr u \<longrightarrow> user_Password u = []) \<and>
   (GetUserByID userID st = Inr u \<longrightarrow> user_Password u = []) \<and>
   (GetAllUsers page limit st = Inr (us, n) \<longrightarrow> list_all (\<lambda>u. user_Password u = []) us) \<and>
   (fst (UpdateProfile gen userID updates st) = Inr u \<longrightarrow> user_Password u = [])"
proof (intro conjI impI)
  assume "fst (Register lib now newID gen req st) = Inr resp"
  then show "user_Password (resp_User resp) = []" by (rule Register_clears)
next
  assume "fst (Login lib now lreq st) = Inr resp"
  then show "user_Password (resp_User resp) = []" by (rule Login_clears)
next
  assume "fst (RefreshToken lib now token st) = Inr resp"
  then show "user_Password (resp_User resp) = []" by (rule RefreshToken_clears)
next
  assume "GetProfile userID st = Inr u"
  then show "user_Password u = []" by (rule GetProfile_clears)
next
  assume "GetUserByID userID st = Inr u"
  then show "user_Password u = []" by (rule GetUserByID_clears)
next
  assume "GetAllUsers page limit st = Inr (us, n)"
  then show "list_all (\<lambda>u. user_Password u = []) us" by (rule GetAllUsers_clears)
next
  assume "fst (UpdateProfile gen userID updates st) = Inr u"
  then show "user_Password u = []" by (rule UpdateProfile_clears)
qed

lemma ex_GetByID: "GetByID 1 (users ex_user_state) = Inr (Some ex_user)"
  by (simp add: GetByID_def gorm_First_def ex_user_state_def ex_user_def)

lemma ex_GetByEmail: "GetByEmail ''ann@example.org'' (users ex_user_state) = Inr (Some ex_user)"
  by (simp add: GetByEmail_def gorm_First_def ex_user_state_def ex_user_def)

lemma ex_lib_calls:
  "bcrypt_GenerateFromPassword ex_lib p = Inr (''$2a$'' @ p)"
  "bcrypt_CompareHashAndPassword ex_lib h p \<longleftrightarrow> h = ''$2a$'' @ p"
  "jwt_ParseWithClaims ex_lib ''refresh'' = Parsed True (Some [''user_id'' \<mapsto> JString ''id-1''])"
  "uuid_Parse ex_lib ''id-1'' = Some 1"
  "redis_fault ex_lib k = None"
  by (simp_all add: ex_lib_def)

lemma ex_tokens: "generateTokens ex_lib now u = Inr (''access'', ''refresh'')"
  by (simp add: generateTokens_def ex_lib_def Let_def)

text \<open>
  The stored user carries the hash \<open>$2a$secret\<close>; each of the seven operations succeeds on
  the sample state and returns users that carry none.
\<close>

theorem returned_user_has_no_password_witness:
  "user_Password ex_user = ''$2a$secret'' \<and>
   (\<exists>resp. fst (Register ex_lib 1000 2 0 ex_register ex_user_state) = Inr resp \<and>
      user_Password (resp_User resp) = []) \<and>
   (\<exists>resp. fst (Login ex_lib 1000 ex_login ex_user_state) = Inr resp \<and>
      user_Password (resp_User resp) = []) \<and>
   (\<exists>resp. fst (RefreshToken ex_lib 1000 ''refresh'' ex_user_state) = Inr resp \<and>
      user_Password (resp_User resp) = []) \<and>
   (\<exists>u. GetProfile 1 ex_user_state = Inr u \<and> user_Password u = []) \<and>
   (\<exists>u. GetUserByID 1 ex_user_state = Inr u \<and> user_Password u = []) \<and>
   (\<exists>us n. GetAllUsers 1 10 ex_user_state = Inr (us, n) \<and> length us = 1 \<and>
      list_all (\<lambda>u. user_Password u = []) us) \<and>
   (\<exists>u. fst (UpdateProfile 0 1 [''name'' \<mapsto> JString ''Anna''] ex_user_state) = Inr u \<and>
      user_Password u = [])"
proof -
  note t = returned_user_has_no_password
  have 0: "user_Password ex_user = ''$2a$secret''" by (simp add: ex_user_def)
  have "\<exists>resp. fst (Register ex_lib 1000 2 0 ex_register ex_user_state) = Inr resp"
    by (simp add: Register_def GetByEmail_def gorm_First_def user_Create_def gorm_Create_def
        insert_row_def user_defaults_def ex_tokens storeRefreshToken_def ex_lib_calls
        ex_user_state_def ex_user_def ex_register_def Let_def)
  then have 1: "\<exists>resp. fst (Register ex_lib 1000 2 0 ex_register ex_user_state) = Inr resp \<and>
      user_Password (resp_User resp) = []"
    using t [where lib = ex_lib and now = 1000 and newID = 2 and gen = 0 and req = ex_register
        and st = ex_user_state]
    by blast
  have "\<exists>resp. fst (Login ex_lib 1000 ex_login ex_user_state) = Inr resp"
    by (simp add: Login_def ex_GetByEmail ex_tokens storeRefreshToken_def ex_login_def
        ex_lib_calls Let_def)
      (simp add: ex_user_def)
  then have 2: "\<exists>resp. fst (Login ex_lib 1000 ex_login ex_user_state) = Inr resp \<and>
      user_Password (resp_User resp) = []"
    using t [where lib = ex_lib and now = 1000 and lreq = ex_login and st = ex_user_state]
    by blast
  have "\<exists>resp. fst (RefreshToken ex_lib 1000 ''refresh'' ex_user_state) = Inr resp"
    by (simp add: RefreshToken_def ex_GetByID ex_tokens storeRefreshToken_def ex_lib_calls Let_def)
      (simp add: ex_user_state_def)
  then have 3: "\<exists>resp. fst (RefreshToken ex_lib 1000 ''refresh'' ex_user_state) = Inr resp \<and>
      user_Password (resp_User resp) = []"
    using t [where lib = ex_lib and now = 1000 and token = "''refresh''" and st = ex_user_state]
    by blast
  have "\<exists>u. GetProfile 1 ex_user_state = Inr u"
    by (simp add: GetProfile_def ex_GetByID)
  then have 4: "\<exists>u. GetProfile 1 ex_user_state = Inr u \<and> user_Password u = []"
    using t [where userID = 1 and st = ex_user_state] by blast
  have "\<exists>u. GetUserByID 1 ex_user_state = Inr u"
    by (simp add: GetUserByID_def ex_GetByID)
  then have 5: "\<exists>u. GetUserByID 1 ex_user_state = Inr u \<and> user_Password u = []"
    using t [where userID = 1 and st = ex_user_state] by blast
  have "\<exists>us n. GetAllUsers 1 10 ex_user_state = Inr (us, n) \<and> length us = 1"
    by (simp add: GetAllUsers_def GetAll_def ex_user_state_def ex_user_def Let_def)
  then have 6: "\<exists>us n. GetAllUsers 1 10 ex_user_state = Inr (us, n) \<and> length us = 1 \<and>
      list_all (\<lambda>u. user_Password u = []) us"
    using t [where page = 1 and limit = 10 and st = ex_user_state] by blast
  have "\<exists>u. fst (UpdateProfile 0 1 [''name'' \<mapsto> JString ''Anna''] ex_user_state) = Inr u"
    by (simp add: UpdateProfile_def ex_GetByID user_Update_def gorm_Save_def Let_def)
      (simp add: ex_user_state_def ex_user_def)
  then have 7: "\<exists>u. fst (UpdateProfile 0 1 [''name'' \<mapsto> JString ''Anna''] ex_user_state) = Inr u \<and>
      user_Password u = []"
    using t [where gen = 0 and userID = 1 and updates = "[''name'' \<mapsto> JString ''Anna'']"
        and st = ex_user_state]
    by blast
  from 0 1 2 3 4 5 6 7 show ?thesis by (intro conjI) assumption+
qed

end
